theory Spec2Isabelle
  imports Main
begin

section \<open>Values of the runtime\<close>

text \<open>
  A JavaScript string is modelled as a \<^typ>\<open>string\<close>. A value that may be
  \<^verbatim>\<open>undefined\<close> is an option. A string is truthy when it is present and not empty.
\<close>

definition truthy :: "string option \<Rightarrow> bool" where
  "truthy v = (case v of None \<Rightarrow> False | Some s \<Rightarrow> s \<noteq> [])"

text \<open>\<^verbatim>\<open>s.includes(sub)\<close>: \<open>sub\<close> occurs in \<open>s\<close> as a contiguous substring.\<close>

fun js_includes :: "string \<Rightarrow> string \<Rightarrow> bool" where
  "js_includes [] sub = (sub = [])"
| "js_includes (c # cs) sub = (take (length sub) (c # cs) = sub \<or> js_includes cs sub)"

text \<open>\<^verbatim>\<open>xs.join(sep)\<close> on an array of strings.\<close>

fun js_join :: "string \<Rightarrow> string list \<Rightarrow> string" where
  "js_join sep [] = []"
| "js_join sep [x] = x"
| "js_join sep (x # y # ys) = x @ sep @ js_join sep (y # ys)"

text \<open>The decimal rendering of a natural number, as a template literal prints it.\<close>

fun dec :: "nat \<Rightarrow> string" where
  "dec n = (if n < 10 then [char_of (48 + n)]
            else dec (n div 10) @ [char_of (48 + n mod 10)])"

declare dec.simps [simp del]

text \<open>
  The values a message's \<^verbatim>\<open>content\<close> can hold after JSON parsing when it is neither a
  string nor an array. A number is carried by its own rendering.
\<close>

datatype js_value = Undefined | Null | Boolean bool | Number string | Object

fun js_String :: "js_value \<Rightarrow> string" where
  "js_String Undefined = ''undefined''"
| "js_String Null = ''null''"
| "js_String (Boolean b) = (if b then ''true'' else ''false'')"
| "js_String (Number s) = s"
| "js_String Object = ''[object Object]''"


section \<open>The prompt compiler\<close>

text \<open>A block of a request message: \<^verbatim>\<open>{ type: string; text?: string }\<close>.\<close>

record req_block =
  btype :: string
  btext :: "string option"

datatype content = CString string | CArray "req_block list" | COther js_value

record message =
  role :: string
  mcontent :: content

text \<open>
  The body of the \<^verbatim>\<open>map\<close> callback of \<^verbatim>\<open>handleMessages\<close>
  (server.ts, lines 102 to 116).
\<close>

definition resolve_content :: "content \<Rightarrow> string" where
  "resolve_content c =
     (case c of
        CString s \<Rightarrow> s
      | CArray bs \<Rightarrow>
          js_join [] (map (\<lambda>b. the (btext b))
                       (filter (\<lambda>b. btype b = ''text'' \<and> truthy (btext b)) bs))
      | COther v \<Rightarrow> js_String v)"

definition labelled :: "message \<Rightarrow> string" where
  "labelled m =
     (let r = (if role m = ''assistant'' then ''Assistant'' else ''Human'')
      in r @ '': '' @ resolve_content (mcontent m))"

definition blank_line :: string where
  "blank_line = [CHR 0x0A, CHR 0x0A]"

text \<open>
  \<^verbatim>\<open>body.messages?.map(...).join("\n\n") || ""\<close>; an absent list is \<open>None\<close>.
\<close>

definition compile_prompt :: "message list option \<Rightarrow> string" where
  "compile_prompt ms =
     (case ms of
        None \<Rightarrow> []
      | Some xs \<Rightarrow> (let p = js_join blank_line (map labelled xs) in if p = [] then [] else p))"

subsection \<open>The prompt as the specification words it\<close>

fun spec_block_text :: "req_block list \<Rightarrow> string" where
  "spec_block_text [] = []"
| "spec_block_text (b # bs) =
     (case btext b of
        Some t \<Rightarrow> (if btype b = ''text'' \<and> t \<noteq> [] then t @ spec_block_text bs
                   else spec_block_text bs)
      | None \<Rightarrow> spec_block_text bs)"

fun spec_content :: "content \<Rightarrow> string" where
  "spec_content (CString s) = s"
| "spec_content (CArray bs) = spec_block_text bs"
| "spec_content (COther v) = js_String v"

definition spec_segment :: "message \<Rightarrow> string" where
  "spec_segment m =
     (if role m = ''assistant'' then ''Assistant: '' @ spec_content (mcontent m)
      else ''Human: '' @ spec_content (mcontent m))"

datatype piece = Segment string | Separator

fun spec_pieces :: "message list \<Rightarrow> piece list" where
  "spec_pieces [] = []"
| "spec_pieces [m] = [Segment (spec_segment m)]"
| "spec_pieces (m # n # ms) = Segment (spec_segment m) # Separator # spec_pieces (n # ms)"

fun render :: "piece \<Rightarrow> string" where
  "render (Segment s) = s"
| "render Separator = [CHR 0x0A, CHR 0x0A]"


section \<open>Engine messages, failures and the environment\<close>

text \<open>
  A content block of an assistant turn as the engine reports it. Only text blocks carry
  a text; the other kinds are told apart by their \<^verbatim>\<open>type\<close>.
\<close>

datatype sdk_block = TextBlock string | ToolUseBlock | ThinkingBlock

text \<open>The \<^verbatim>\<open>delta\<close> object of a nested \<^verbatim>\<open>content_block_delta\<close> event.\<close>

record delta =
  dtype :: string
  dbody :: string

text \<open>
  The nested event of a \<^verbatim>\<open>stream_event\<close> message, with the fields the handler
  reads: \<^verbatim>\<open>event.index\<close>, \<^verbatim>\<open>event.content_block?.type\<close>,
  \<^verbatim>\<open>event.delta\<close>.
\<close>

datatype stream_event =
    EvContentBlockStart nat "string option"
  | EvContentBlockDelta nat delta
  | EvContentBlockStop nat
  | EvOther

text \<open>
  A message of the engine's asynchronous iterator. An assistant turn carries
  \<^verbatim>\<open>session_id\<close> and \<^verbatim>\<open>message.content\<close>; a user message tells whether it has a
  truthy \<^verbatim>\<open>tool_use_result\<close>.
\<close>

datatype sdk_message =
    Assistant "string option" "sdk_block list"
  | User bool
  | Result
  | StreamEvent stream_event
  | System

text \<open>
  A value caught by \<^verbatim>\<open>catch (error)\<close>: an \<^verbatim>\<open>Error\<close> object with its
  \<^verbatim>\<open>name\<close> and \<^verbatim>\<open>message\<close>, or any other value, carried by its
  \<^verbatim>\<open>String(error)\<close>.
\<close>

datatype thrown = JsError string string | JsThrown string

text \<open>
  What happens around one request, in order: the engine's iterator yields a message,
  ends, or raises; the client disconnects (the runtime calls \<^verbatim>\<open>cancel()\<close> of the
  stream); time passes; the keep-alive interval's callback runs.
\<close>

datatype action =
    Yield sdk_message
  | Done
  | Throw thrown
  | Cancel
  | Elapse nat
  | HeartbeatTick

text \<open>
  \<^verbatim>\<open>CLAUDE_PROXY_TIMEOUT_MS\<close> and \<^verbatim>\<open>CLAUDE_PROXY_INACTIVITY_MS\<close> after
  \<^verbatim>\<open>parseInt\<close>: an integer, or \<open>None\<close> for \<^verbatim>\<open>NaN\<close>.
\<close>

record config =
  timeout_ms :: "int option"
  inactivity_ms :: "int option"

text \<open>
  The delay \<^verbatim>\<open>setTimeout\<close> applies, in milliseconds: its delay is a 32-bit signed
  integer, and a delay that is \<^verbatim>\<open>NaN\<close>, below 1 or above 2147483647 is taken as 1.
\<close>

definition setTimeout_delay :: "int option \<Rightarrow> nat" where
  "setTimeout_delay d =
     (case d of
        None \<Rightarrow> 1
      | Some n \<Rightarrow> if n < 1 \<or> 2147483647 < n then 1 else nat n)"

text \<open>
  The request: \<^verbatim>\<open>body.model\<close>, \<^verbatim>\<open>body.stream\<close>, \<^verbatim>\<open>body.messages\<close> and the
  inbound \<^verbatim>\<open>X-Claude-Session-ID\<close> header.
\<close>

record request =
  body_model :: "string option"
  body_stream :: "bool option"
  body_messages :: "message list option"
  header_session :: "string option"


section \<open>Error classification\<close>

definition errorMessage :: "thrown \<Rightarrow> string" where
  "errorMessage e = (case e of JsError n m \<Rightarrow> m | JsThrown s \<Rightarrow> s)"

definition isSdkAbort :: "thrown \<Rightarrow> bool" where
  "isSdkAbort e =
     (js_includes (errorMessage e) ''Claude Code process aborted''
      \<or> js_includes (errorMessage e) ''process aborted by user'')"

definition isConnectionReset :: "thrown \<Rightarrow> bool" where
  "isConnectionReset e =
     (\<not> isSdkAbort e \<and>
      (case e of
         JsError n m \<Rightarrow>
           js_includes m ''reset'' \<or> js_includes m ''ECONNRESET'' \<or> n = ''AbortError''
       | JsThrown s \<Rightarrow> False))"

definition isExitCode1 :: "thrown \<Rightarrow> bool" where
  "isExitCode1 e =
     (js_includes (errorMessage e) ''exited with code 1''
      \<or> js_includes (errorMessage e) ''exit code 1'')"

definition auth_message :: string where
  "auth_message =
     ''Claude Code authentication failed. Please run '' @ [CHR 0x27] @ ''claude login''
       @ [CHR 0x27] @ '' and try again.''"

definition abort_message :: string where
  "abort_message =
     ''Claude SDK process exited unexpectedly. This may be due to resource constraints, network issues, or an internal SDK error. Check the proxy logs for details.''"

text \<open>
  The \<^verbatim>\<open>errorType\<close> and \<^verbatim>\<open>userMessage\<close> of the streaming path
  (server.ts, lines 554 to 565).
\<close>

definition classify :: "thrown \<Rightarrow> string \<times> string" where
  "classify e =
     (if isExitCode1 e then (''authentication_error'', auth_message)
      else if isSdkAbort e then (''api_error'', abort_message)
      else if isConnectionReset e then (''connection_error'', errorMessage e)
      else (''api_error'', errorMessage e))"


section \<open>The streaming path\<close>

text \<open>
  A chunk enqueued on the stream's controller: the SSE frames by event name with the
  fields of their payload, and the keep-alive comment.
\<close>

datatype frame =
    MessageStart string "string option"
  | ContentBlockStart nat
  | ContentBlockDelta nat delta
  | ContentBlockStop nat
  | MessageDelta string
  | MessageStop
  | ErrorFrame string string
  | Ping

datatype phase = Streaming | Finished

text \<open>
  The variables of the streaming branch of \<^verbatim>\<open>handleMessages\<close>. A pending timer is
  the time at which it fires; \<open>heartbeat\<close> tells whether the interval is active;
  \<open>aborted\<close> is the state of the abort signal; \<open>closed\<close> holds once the controller
  accepts no more chunks; \<open>out\<close> is what has been enqueued; \<open>phase\<close> tells whether
  \<^verbatim>\<open>start\<close> is still inside its loop.
\<close>

record sstate =
  clock :: nat
  timeoutId :: "nat option"
  inactivityTimeoutId :: "nat option"
  heartbeat :: bool
  aborted :: bool
  closed :: bool
  clientDisconnected :: bool
  currentSessionId :: "string option"
  turnCount :: nat
  hasResult :: bool
  hasStreamEvents :: bool
  out :: "frame list"
  phase :: phase

definition clearTimers :: "sstate \<Rightarrow> sstate" where
  "clearTimers s = s\<lparr>timeoutId := None, inactivityTimeoutId := None\<rparr>"

definition resetInactivityTimeout :: "config \<Rightarrow> sstate \<Rightarrow> sstate" where
  "resetInactivityTimeout cfg s =
     s\<lparr>inactivityTimeoutId := Some (clock s + setTimeout_delay (inactivity_ms cfg))\<rparr>"

text \<open>
  \<^verbatim>\<open>controller.enqueue\<close> for chunks enqueued one after the other: on a closed
  controller the first call raises a \<^verbatim>\<open>TypeError\<close> (\<open>None\<close>).
\<close>

definition enqueue_all :: "frame list \<Rightarrow> sstate \<Rightarrow> sstate option" where
  "enqueue_all fs s =
     (if fs = [] then Some s
      else if closed s then None
      else Some (s\<lparr>out := out s @ fs\<rparr>))"

text \<open>
  \<^verbatim>\<open>controller.close()\<close>. On a controller that is closed already it raises; at each
  of its call sites nothing follows it, so only the flag is kept.
\<close>

definition close_controller :: "sstate \<Rightarrow> sstate" where
  "close_controller s = s\<lparr>closed := True\<rparr>"

text \<open>
  The \<^verbatim>\<open>TypeError\<close> of an enqueue on a closed controller. Its message is the
  runtime's; the controller being closed, no frame carries it.
\<close>

definition enqueue_failure :: thrown where
  "enqueue_failure = JsError ''TypeError'' ''Invalid state: Controller is already closed''"

text \<open>
  The synchronous part of \<^verbatim>\<open>start\<close> (lines 210 to 278): the total timer, the two
  opening frames, the inactivity timer, the engine call and the keep-alive interval.
\<close>

definition start :: "config \<Rightarrow> request \<Rightarrow> nat \<Rightarrow> sstate" where
  "start cfg req now =
     \<lparr>clock = now,
      timeoutId = Some (now + setTimeout_delay (timeout_ms cfg)),
      inactivityTimeoutId = Some (now + setTimeout_delay (inactivity_ms cfg)),
      heartbeat = True,
      aborted = False,
      closed = False,
      clientDisconnected = False,
      currentSessionId = None,
      turnCount = 0,
      hasResult = False,
      hasStreamEvents = False,
      out = [MessageStart (''msg_'' @ dec now) (body_model req), ContentBlockStart 0],
      phase = Streaming\<rparr>"

text \<open>The \<^verbatim>\<open>catch\<close> block of \<^verbatim>\<open>start\<close> (lines 442 to 575).\<close>

definition on_error :: "sstate \<Rightarrow> thrown \<Rightarrow> sstate" where
  "on_error s e =
     (let s1 = clearTimers s in
      if clientDisconnected s1 then (close_controller s1)\<lparr>phase := Finished\<rparr>
      else (case enqueue_all [ErrorFrame (fst (classify e)) (snd (classify e))] s1 of
              None \<Rightarrow> s1\<lparr>phase := Finished\<rparr>
            | Some s2 \<Rightarrow> (close_controller s2)\<lparr>phase := Finished\<rparr>))"

text \<open>
  What follows the loop when it ends or is left by \<^verbatim>\<open>break\<close> (lines 410 to 441).
\<close>

definition after_loop :: "sstate \<Rightarrow> sstate" where
  "after_loop s =
     (let s1 = clearTimers (s\<lparr>heartbeat := False\<rparr>) in
      case enqueue_all [ContentBlockStop 0, MessageDelta ''end_turn'', MessageStop] s1 of
        None \<Rightarrow> on_error s1 enqueue_failure
      | Some s2 \<Rightarrow> (close_controller s2)\<lparr>phase := Finished\<rparr>)"

text \<open>Turn counter, session identifier and result flag (lines 297 to 341).\<close>

definition track :: "sstate \<Rightarrow> sdk_message \<Rightarrow> sstate" where
  "track s m =
     (case m of
        Assistant sid bs \<Rightarrow>
          (let s1 = s\<lparr>turnCount := turnCount s + 1\<rparr> in
           if truthy sid \<and> \<not> truthy (currentSessionId s1)
           then s1\<lparr>currentSessionId := sid\<rparr> else s1)
      | Result \<Rightarrow> s\<lparr>hasResult := True\<rparr>
      | _ \<Rightarrow> s)"

text \<open>The frames of a nested event (lines 350 to 375).\<close>

definition event_frames :: "stream_event \<Rightarrow> frame list" where
  "event_frames e =
     (case e of
        EvContentBlockStart i ty \<Rightarrow>
          (if ty = Some ''text'' \<or> \<not> truthy ty then [ContentBlockStart i] else [])
      | EvContentBlockDelta i d \<Rightarrow>
          (if dtype d = ''text_delta'' then [ContentBlockDelta i d] else [])
      | EvContentBlockStop i \<Rightarrow> [ContentBlockStop i]
      | EvOther \<Rightarrow> [])"

text \<open>\<^verbatim>\<open>content.filter(b => b.type === "text")\<close>, as the texts of the blocks kept.\<close>

fun textBlocks :: "sdk_block list \<Rightarrow> string list" where
  "textBlocks [] = []"
| "textBlocks (TextBlock t # bs) = t # textBlocks bs"
| "textBlocks (b # bs) = textBlocks bs"

text \<open>
  The loop over \<^verbatim>\<open>textBlocks\<close> from index \<open>i\<close> (lines 384 to 407).
\<close>

fun fallback_frames :: "nat \<Rightarrow> string list \<Rightarrow> frame list" where
  "fallback_frames i [] = []"
| "fallback_frames i (t # ts) =
     [ContentBlockStart i,
      ContentBlockDelta i \<lparr>dtype = ''text_delta'', dbody = t\<rparr>,
      ContentBlockStop i] @ fallback_frames (Suc i) ts"

text \<open>One iteration of the \<^verbatim>\<open>for await\<close> loop (lines 281 to 409).\<close>

definition on_message :: "config \<Rightarrow> sstate \<Rightarrow> sdk_message \<Rightarrow> sstate" where
  "on_message cfg s m =
     (if clientDisconnected s then after_loop s
      else
        let s1 = track (resetInactivityTimeout cfg s) m;
            s2 = (case m of StreamEvent e \<Rightarrow> s1\<lparr>hasStreamEvents := True\<rparr> | _ \<Rightarrow> s1);
            fs = (case m of
                    StreamEvent e \<Rightarrow> event_frames e
                  | Assistant sid bs \<Rightarrow>
                      (if hasStreamEvents s1 then [] else fallback_frames 0 (textBlocks bs))
                  | _ \<Rightarrow> [])
        in case enqueue_all fs s2 of
             Some s3 \<Rightarrow> s3
           | None \<Rightarrow> on_error (s2\<lparr>heartbeat := False\<rparr>) enqueue_failure)"

text \<open>
  The callback of either timer (lines 211 to 224): abort, then close the controller.
\<close>

definition fire :: "sstate \<Rightarrow> sstate" where
  "fire s = close_controller (s\<lparr>aborted := True\<rparr>)"

text \<open>The pending timers whose time has come fire.\<close>

definition run_timers :: "sstate \<Rightarrow> sstate" where
  "run_timers s =
     (let s1 = (case timeoutId s of
                  Some d \<Rightarrow> if d \<le> clock s then fire (s\<lparr>timeoutId := None\<rparr>) else s
                | None \<Rightarrow> s)
      in case inactivityTimeoutId s1 of
           Some d \<Rightarrow> if d \<le> clock s1 then fire (s1\<lparr>inactivityTimeoutId := None\<rparr>) else s1
         | None \<Rightarrow> s1)"

text \<open>
  \<^verbatim>\<open>cancel()\<close> of the stream (lines 577 to 585). The runtime has closed the stream
  when it calls it; the abort controller is left alone.
\<close>

definition cancel :: "sstate \<Rightarrow> sstate" where
  "cancel s = clearTimers (s\<lparr>clientDisconnected := True, closed := True\<rparr>)"

text \<open>The callback of the keep-alive interval (lines 267 to 278).\<close>

definition heartbeat_tick :: "sstate \<Rightarrow> sstate" where
  "heartbeat_tick s =
     (if \<not> heartbeat s then s
      else if clientDisconnected s then s\<lparr>heartbeat := False\<rparr>
      else (case enqueue_all [Ping] s of
              Some s1 \<Rightarrow> s1
            | None \<Rightarrow> s\<lparr>heartbeat := False\<rparr>))"

fun step :: "config \<Rightarrow> sstate \<Rightarrow> action \<Rightarrow> sstate" where
  "step cfg s (Yield m) = (if phase s = Finished then s else on_message cfg s m)"
| "step cfg s Done = (if phase s = Finished then s else after_loop s)"
| "step cfg s (Throw e) =
     (if phase s = Finished then s else on_error (s\<lparr>heartbeat := False\<rparr>) e)"
| "step cfg s Cancel = cancel s"
| "step cfg s (Elapse n) = run_timers (s\<lparr>clock := clock s + n\<rparr>)"
| "step cfg s HeartbeatTick = heartbeat_tick s"

definition exec :: "config \<Rightarrow> sstate \<Rightarrow> action list \<Rightarrow> sstate" where
  "exec cfg s as = foldl (step cfg) s as"


section \<open>The non-streaming path and the handler\<close>

datatype body =
    MessageBody string string "string option"
  | ErrorBody string string
  | EventStream "frame list"

text \<open>
  A response: its status, the headers the handler sets itself, and its body.
\<close>

record response =
  r_status :: nat
  r_headers :: "(string \<times> string) list"
  r_body :: body

text \<open>
  The variables of the non-streaming branch (lines 119 to 192); \<open>returned\<close> is the
  handler's response once it has one.
\<close>

record nstate =
  nclock :: nat
  ntimeout :: "nat option"
  naborted :: bool
  fullContent :: string
  nSessionId :: "string option"
  returned :: "response option"

definition nstart :: "config \<Rightarrow> nat \<Rightarrow> nstate" where
  "nstart cfg now =
     \<lparr>nclock = now, ntimeout = Some (now + setTimeout_delay (timeout_ms cfg)),
      naborted = False,
      fullContent = [], nSessionId = None, returned = None\<rparr>"

text \<open>\<^verbatim>\<open>a || b\<close> where \<open>b\<close> is a string.\<close>

definition or_else :: "string option \<Rightarrow> string \<Rightarrow> string" where
  "or_else a b = (case a of None \<Rightarrow> b | Some s \<Rightarrow> if s = [] then b else s)"

definition session_header :: string where
  "session_header = ''X-Claude-Session-ID''"

text \<open>
  What the runtime's \<^verbatim>\<open>Headers\<close> makes of a value: leading and trailing HTTP
  whitespace (line feed, carriage return, tab, space) is stripped, and a value that then
  holds a NUL, a line feed or a carriage return is refused with a \<^verbatim>\<open>TypeError\<close>
  (\<open>None\<close>).
\<close>

definition http_whitespace :: "char \<Rightarrow> bool" where
  "http_whitespace c = (c = CHR 0x0A \<or> c = CHR 0x0D \<or> c = CHR 0x09 \<or> c = CHR 0x20)"

definition header_value :: "string \<Rightarrow> string option" where
  "header_value v =
     (let w = rev (dropWhile http_whitespace (rev (dropWhile http_whitespace v))) in
      if list_ex (\<lambda>c. c = CHR 0x00 \<or> c = CHR 0x0A \<or> c = CHR 0x0D) w then None
      else Some w)"

text \<open>
  The \<^verbatim>\<open>TypeError\<close> of a refused header value; its message is the runtime's.
\<close>

definition header_failure :: thrown where
  "header_failure = JsError ''TypeError'' ''Invalid header value''"

text \<open>The outer \<^verbatim>\<open>catch\<close> of \<^verbatim>\<open>handleMessages\<close> (lines 596 to 620).\<close>

definition error_response :: "thrown \<Rightarrow> response" where
  "error_response e =
     \<lparr>r_status = (if isExitCode1 e then 401 else 500),
      r_headers = [],
      r_body = ErrorBody (if isExitCode1 e then ''authentication_error'' else ''api_error'')
                         (if isExitCode1 e then auth_message else errorMessage e)\<rparr>"

text \<open>
  The response of a loop that ended (lines 164 to 178). A header value that is refused
  raises inside the \<^verbatim>\<open>try\<close>, is rethrown at line 190 and ends in the outer
  \<^verbatim>\<open>catch\<close>.
\<close>

definition ok_response :: "request \<Rightarrow> nstate \<Rightarrow> response" where
  "ok_response req s =
     (case header_value (or_else (nSessionId s) (''session_'' @ dec (nclock s))) of
        None \<Rightarrow> error_response header_failure
      | Some v \<Rightarrow>
          \<lparr>r_status = 200,
           r_headers = [(session_header, v)],
           r_body = MessageBody (''msg_'' @ dec (nclock s)) (fullContent s)
                      (body_model req)\<rparr>)"

text \<open>One iteration of the loop of the non-streaming branch (lines 145 to 162).\<close>

definition non_message :: "nstate \<Rightarrow> sdk_message \<Rightarrow> nstate" where
  "non_message s m =
     (case m of
        Assistant sid bs \<Rightarrow>
          s\<lparr>nSessionId := (if truthy sid then sid else nSessionId s),
            fullContent := fullContent s @ concat (textBlocks bs)\<rparr>
      | _ \<Rightarrow> s)"

fun nstep :: "request \<Rightarrow> nstate \<Rightarrow> action \<Rightarrow> nstate" where
  "nstep req s (Yield m) = (if returned s \<noteq> None then s else non_message s m)"
| "nstep req s Done =
     (if returned s \<noteq> None then s
      else s\<lparr>ntimeout := None, returned := Some (ok_response req s)\<rparr>)"
| "nstep req s (Throw e) =
     (if returned s \<noteq> None then s
      else s\<lparr>ntimeout := None, returned := Some (error_response e)\<rparr>)"
| "nstep req s (Elapse n) =
     (let s1 = s\<lparr>nclock := nclock s + n\<rparr> in
      case ntimeout s1 of
        Some d \<Rightarrow> if d \<le> nclock s1 then s1\<lparr>ntimeout := None, naborted := True\<rparr> else s1
      | None \<Rightarrow> s1)"
| "nstep req s Cancel = s"
| "nstep req s HeartbeatTick = s"

definition nexec :: "request \<Rightarrow> nstate \<Rightarrow> action list \<Rightarrow> nstate" where
  "nexec req s as = foldl (nstep req) s as"

text \<open>
  The response of the streaming branch (lines 588 to 595). It is built as soon as the
  synchronous part of \<^verbatim>\<open>start\<close> has run, so its headers read the variables as
  \<^const>\<open>start\<close> leaves them; its body is what the run enqueues. A header value
  that is refused raises and ends in the outer \<^verbatim>\<open>catch\<close>.
\<close>

definition stream_response :: "config \<Rightarrow> request \<Rightarrow> nat \<Rightarrow> action list \<Rightarrow> response" where
  "stream_response cfg req now as =
     (let s0 = start cfg req now in
      case header_value
             (or_else (currentSessionId s0)
                (or_else (header_session req) (''session_'' @ dec (clock s0)))) of
        None \<Rightarrow> error_response header_failure
      | Some v \<Rightarrow>
          \<lparr>r_status = 200,
           r_headers =
             [(''Content-Type'', ''text/event-stream''),
              (''Cache-Control'', ''no-cache''),
              (''Connection'', ''keep-alive''),
              (session_header, v)],
           r_body = EventStream (out (exec cfg s0 as))\<rparr>)"

text \<open>
  \<^verbatim>\<open>handleMessages\<close> on a request and what happens around it from time \<open>now\<close> on.
  \<^verbatim>\<open>body.stream ?? true\<close> selects the branch; the non-streaming branch has a response
  once the engine's iterator has ended or raised.
\<close>

definition handleMessages ::
  "config \<Rightarrow> request \<Rightarrow> nat \<Rightarrow> action list \<Rightarrow> response option" where
  "handleMessages cfg req now as =
     (if body_stream req = Some False then returned (nexec req (nstart cfg now) as)
      else Some (stream_response cfg req now as))"


section \<open>Notions of the specification\<close>

text \<open>The engine's iterator ends or raises.\<close>

fun terminal :: "action \<Rightarrow> bool" where
  "terminal Done = True"
| "terminal (Throw e) = True"
| "terminal a = False"

text \<open>The session identifier an action reports: that of an assistant turn, if truthy.\<close>

fun session_of :: "action \<Rightarrow> string list" where
  "session_of (Yield (Assistant (Some sid) bs)) = (if sid \<noteq> [] then [sid] else [])"
| "session_of a = []"

definition reported :: "action list \<Rightarrow> string list" where
  "reported as = concat (map session_of as)"

fun duration :: "action \<Rightarrow> nat" where
  "duration (Elapse n) = n"
| "duration a = 0"

definition elapsed :: "action list \<Rightarrow> nat" where
  "elapsed as = sum_list (map duration as)"

fun is_stream_yield :: "action \<Rightarrow> bool" where
  "is_stream_yield (Yield (StreamEvent e)) = True"
| "is_stream_yield a = False"

definition session_id_of :: "response \<Rightarrow> string option" where
  "session_id_of r = map_of (r_headers r) session_header"

text \<open>The frames that open, close or fail a message.\<close>

fun lifecycle :: "frame \<Rightarrow> bool" where
  "lifecycle (MessageStart i m) = True"
| "lifecycle (MessageDelta r) = True"
| "lifecycle MessageStop = True"
| "lifecycle (ErrorFrame t m) = True"
| "lifecycle f = False"

fun is_message_start :: "frame \<Rightarrow> bool" where
  "is_message_start (MessageStart i m) = True"
| "is_message_start f = False"

fun is_error_frame :: "frame \<Rightarrow> bool" where
  "is_error_frame (ErrorFrame t m) = True"
| "is_error_frame f = False"

text \<open>
  A sequence that starts with exactly one \<open>message_start\<close> followed by a
  \<open>content_block_start\<close> of index 0.
\<close>

definition opening_ok :: "frame list \<Rightarrow> bool" where
  "opening_ok fs =
     (case fs of
        MessageStart i m # ContentBlockStart k # rest \<Rightarrow>
          k = 0 \<and> list_all (\<lambda>f. \<not> is_message_start f) rest
      | _ \<Rightarrow> False)"

text \<open>The opening followed by frames of content blocks and keep-alive comments only.\<close>

definition opened :: "frame list \<Rightarrow> bool" where
  "opened fs =
     (case fs of
        MessageStart i m # ContentBlockStart k # mid \<Rightarrow>
          k = 0 \<and> list_all (\<lambda>f. \<not> lifecycle f) mid
      | _ \<Rightarrow> False)"

text \<open>
  The ordering invariant: the opening, then other frames, then either
  \<open>content_block_stop\<close>, \<open>message_delta\<close> with stop reason \<open>end_turn\<close> and
  \<open>message_stop\<close>, or a single \<open>error\<close> frame.
\<close>

definition well_framed :: "frame list \<Rightarrow> bool" where
  "well_framed fs =
     (case fs of
        MessageStart i m # ContentBlockStart k # rest \<Rightarrow>
          k = 0 \<and>
          (case rev rest of
             MessageStop # MessageDelta r # ContentBlockStop j # mid \<Rightarrow>
               r = ''end_turn'' \<and> list_all (\<lambda>f. \<not> lifecycle f) mid
           | ErrorFrame t e # mid \<Rightarrow> list_all (\<lambda>f. \<not> lifecycle f) mid
           | _ \<Rightarrow> False)
      | _ \<Rightarrow> False)"

text \<open>
  One start, delta, stop triad per text, indexed by the text's position.
\<close>

definition spec_triads :: "string list \<Rightarrow> frame list" where
  "spec_triads ts =
     concat (map (\<lambda>(i, t). [ContentBlockStart i,
                             ContentBlockDelta i \<lparr>dtype = ''text_delta'', dbody = t\<rparr>,
                             ContentBlockStop i])
                 (zip [0..<length ts] ts))"

text \<open>The classification of a streaming failure as the specification words it.\<close>

definition claimed_classify :: "thrown \<Rightarrow> string \<times> string" where
  "claimed_classify e =
     (let m = errorMessage e in
      if js_includes m ''exited with code 1'' \<or> js_includes m ''exit code 1''
      then (''authentication_error'', auth_message)
      else if js_includes m ''process aborted'' \<or> js_includes m ''aborted by user''
      then (''api_error'', abort_message)
      else if js_includes m ''reset'' \<or> js_includes m ''ECONNRESET''
              \<or> (case e of JsError n x \<Rightarrow> n = ''AbortError'' | JsThrown s \<Rightarrow> False)
      then (''connection_error'', m)
      else (''api_error'', m))"

text \<open>
  The same rules with the two amendments: the abort messages are the two the handler
  looks for, and the connection class needs an \<^verbatim>\<open>Error\<close> object.
\<close>

definition amended_classify :: "thrown \<Rightarrow> string \<times> string" where
  "amended_classify e =
     (let m = errorMessage e in
      if js_includes m ''exited with code 1'' \<or> js_includes m ''exit code 1''
      then (''authentication_error'', auth_message)
      else if js_includes m ''Claude Code process aborted''
              \<or> js_includes m ''process aborted by user''
      then (''api_error'', abort_message)
      else if (case e of
                 JsError n x \<Rightarrow> js_includes x ''reset'' \<or> js_includes x ''ECONNRESET''
                                 \<or> n = ''AbortError''
               | JsThrown s \<Rightarrow> False)
      then (''connection_error'', m)
      else (''api_error'', m))"

text \<open>
  An engine that yields its messages one after the other, each after a gap in
  milliseconds.
\<close>

definition timeline :: "(nat \<times> sdk_message) list \<Rightarrow> action list" where
  "timeline gs = concat (map (\<lambda>(g, m). [Elapse g, Yield m]) gs)"

text \<open>A character that is neither HTTP whitespace nor NUL.\<close>

definition plain_char :: "char \<Rightarrow> bool" where
  "plain_char c = (\<not> http_whitespace c \<and> c \<noteq> CHR 0x00)"

text \<open>
  What holds of a run that neither a timer nor a disconnect has disturbed: while the loop
  runs the stream is open and holds the opening and content frames; once it has finished
  the stream is closed and well framed.
\<close>

definition settled :: "sstate \<Rightarrow> bool" where
  "settled s =
     (\<not> aborted s \<and> \<not> clientDisconnected s \<longrightarrow>
        (phase s \<noteq> Finished \<longrightarrow> opened (out s) \<and> \<not> closed s) \<and>
        (phase s = Finished \<longrightarrow> well_framed (out s) \<and> closed s))"

text \<open>The client has gone: the stream is closed and no timer is pending.\<close>

definition gone :: "sstate \<Rightarrow> bool" where
  "gone s = (clientDisconnected s \<and> closed s \<and> timeoutId s = None
             \<and> inactivityTimeoutId s = None)"

text \<open>The default configuration and sample requests, for the concrete runs below.\<close>

definition default_config :: config where
  "default_config = \<lparr>timeout_ms = Some 3600000, inactivity_ms = Some 900000\<rparr>"

definition sample_request :: request where
  "sample_request =
     \<lparr>body_model = Some ''sonnet'', body_stream = None,
      body_messages = Some [\<lparr>role = ''user'', mcontent = CString ''hi''\<rparr>],
      header_session = None\<rparr>"

definition sample_request_json :: request where
  "sample_request_json = sample_request\<lparr>body_stream := Some False\<rparr>"


section \<open>Properties of the prompt compiler\<close>

lemma js_join_empty_sep: "js_join [] xs = concat xs"
  by (induction "[] :: string" xs rule: js_join.induct) simp_all

lemma resolve_blocks_spec:
  "js_join [] (map (\<lambda>b. the (btext b))
      (filter (\<lambda>b. btype b = ''text'' \<and> truthy (btext b)) bs)) = spec_block_text bs"
  unfolding js_join_empty_sep
  by (induction bs) (auto simp: truthy_def split: option.splits)

lemma resolve_content_spec: "resolve_content c = spec_content c"
  by (cases c) (simp_all add: resolve_content_def resolve_blocks_spec)

lemma labelled_spec: "labelled m = spec_segment m"
  by (simp add: labelled_def spec_segment_def resolve_content_spec)

lemma labelled_not_empty: "labelled m \<noteq> []"
  by (simp add: labelled_def)

lemma js_join_pieces:
  "js_join blank_line (map labelled ms) = concat (map render (spec_pieces ms))"
  by (induction ms rule: spec_pieces.induct) (simp_all add: labelled_spec blank_line_def)

lemma separators_count:
  "length (filter (\<lambda>p. p = Separator) (spec_pieces ms)) = length ms - 1"
  by (induction ms rule: spec_pieces.induct) simp_all

lemma js_join_length:
  "length (js_join sep xs) = sum_list (map length xs) + length sep * (length xs - 1)"
  by (induction sep xs rule: js_join.induct) simp_all

text \<open>
  C9: the compiled prompt labels each message \<open>Assistant: \<close> when its role is
  \<open>assistant\<close> and \<open>Human: \<close> otherwise; string content is taken verbatim, an array of
  blocks gives the concatenation of the texts of its blocks of type \<open>text\<close> with a
  non-empty text, any other content is stringified; the labelled segments are joined by
  exactly \<open>length ms - 1\<close> blank-line separators, and an empty or absent list gives the
  empty string.
\<close>

theorem C9_compile_prompt:
  "compile_prompt (Some ms) = concat (map render (spec_pieces ms))
   \<and> length (filter (\<lambda>p. p = Separator) (spec_pieces ms)) = length ms - 1
   \<and> length (compile_prompt (Some ms))
       = sum_list (map (\<lambda>m. length (spec_segment m)) ms) + 2 * (length ms - 1)
   \<and> compile_prompt (Some []) = []
   \<and> compile_prompt None = []"
proof -
  have a: "compile_prompt (Some ms) = js_join blank_line (map labelled ms)"
    by (simp add: compile_prompt_def Let_def)
  have b: "map length (map labelled ms) = map (\<lambda>m. length (spec_segment m)) ms"
    by (simp add: labelled_spec)
  have c: "length (compile_prompt (Some ms))
       = sum_list (map (\<lambda>m. length (spec_segment m)) ms) + 2 * (length ms - 1)"
    unfolding a js_join_length b by (simp add: blank_line_def)
  show ?thesis
    using c by (simp add: a js_join_pieces separators_count) (simp add: compile_prompt_def)
qed

theorem C9_compile_prompt_witness:
  "compile_prompt (Some
      [\<lparr>role = ''user'', mcontent = CString ''hi''\<rparr>,
       \<lparr>role = ''assistant'',
        mcontent = CArray [\<lparr>btype = ''text'', btext = Some ''a''\<rparr>,
                           \<lparr>btype = ''tool_use'', btext = None\<rparr>,
                           \<lparr>btype = ''text'', btext = Some ''''\<rparr>,
                           \<lparr>btype = ''text'', btext = Some ''b''\<rparr>]\<rparr>,
       \<lparr>role = ''system'', mcontent = COther Null\<rparr>])
   = ''Human: hi'' @ [CHR 0x0A, CHR 0x0A] @ ''Assistant: ab'' @ [CHR 0x0A, CHR 0x0A]
       @ ''Human: null''"
  using C9_compile_prompt
    [of "[\<lparr>role = ''user'', mcontent = CString ''hi''\<rparr>,
       \<lparr>role = ''assistant'',
        mcontent = CArray [\<lparr>btype = ''text'', btext = Some ''a''\<rparr>,
                           \<lparr>btype = ''tool_use'', btext = None\<rparr>,
                           \<lparr>btype = ''text'', btext = Some ''''\<rparr>,
                           \<lparr>btype = ''text'', btext = Some ''b''\<rparr>]\<rparr>,
       \<lparr>role = ''system'', mcontent = COther Null\<rparr>]"]
  by (simp add: spec_segment_def)


section \<open>Runs of the streaming path\<close>

lemmas step_defs = on_message_def after_loop_def on_error_def enqueue_all_def
  close_controller_def clearTimers_def resetInactivityTimeout_def track_def cancel_def
  heartbeat_tick_def run_timers_def fire_def

lemma exec_Nil: "exec cfg s [] = s"
  by (simp add: exec_def)

lemma exec_Cons: "exec cfg s (a # as) = exec cfg (step cfg s a) as"
  by (simp add: exec_def)

lemma exec_append: "exec cfg s (xs @ ys) = exec cfg (exec cfg s xs) ys"
  by (simp add: exec_def)

lemma exec_snoc: "exec cfg s (xs @ [a]) = step cfg (exec cfg s xs) a"
  by (simp add: exec_def)

lemma exec_invariant:
  assumes "P s" and "\<And>s a. P s \<Longrightarrow> P (step cfg s a)"
  shows "P (exec cfg s as)"
  using assms(1)
  by (induction as arbitrary: s) (simp_all add: exec_Nil exec_Cons assms(2))

lemma event_frames_plain: "list_all (\<lambda>f. \<not> lifecycle f) (event_frames e)"
  by (cases e) (auto simp: event_frames_def)

lemma fallback_frames_plain: "list_all (\<lambda>f. \<not> lifecycle f) (fallback_frames i ts)"
  by (induction i ts rule: fallback_frames.induct) auto

lemma opened_append:
  "opened fs \<Longrightarrow> list_all (\<lambda>f. \<not> lifecycle f) gs \<Longrightarrow> opened (fs @ gs)"
  by (auto simp: opened_def split: list.splits frame.splits)

lemma opened_closing:
  "opened fs \<Longrightarrow> well_framed (fs @ [ContentBlockStop j, MessageDelta ''end_turn'', MessageStop])"
  by (auto simp: opened_def well_framed_def split: list.splits frame.splits)

lemma opened_error: "opened fs \<Longrightarrow> well_framed (fs @ [ErrorFrame t e])"
  by (auto simp: opened_def well_framed_def split: list.splits frame.splits)

lemma not_lifecycle_not_error: "\<not> lifecycle f \<Longrightarrow> \<not> is_error_frame f"
  by (cases f) simp_all

lemma opened_no_error: "opened fs \<Longrightarrow> list_all (\<lambda>f. \<not> is_error_frame f) fs"
  by (auto simp: opened_def list_all_iff not_lifecycle_not_error split: list.splits frame.splits)

subsection \<open>A disconnected client has a closed stream\<close>

lemma step_disc_closed:
  "(clientDisconnected s \<longrightarrow> closed s) \<Longrightarrow>
   (clientDisconnected (step cfg s a) \<longrightarrow> closed (step cfg s a))"
  by (cases a) (auto simp: step_defs Let_def split: option.splits sdk_message.splits)

lemma reach_disc_closed:
  "clientDisconnected (exec cfg (start cfg req now) as)
   \<longrightarrow> closed (exec cfg (start cfg req now) as)"
  by (rule exec_invariant [where P = "\<lambda>s. clientDisconnected s \<longrightarrow> closed s"])
     (simp_all add: start_def step_disc_closed)

subsection \<open>The opening is never repeated\<close>

lemma opening_ok_append:
  "opening_ok fs \<Longrightarrow> list_all (\<lambda>f. \<not> is_message_start f) gs \<Longrightarrow> opening_ok (fs @ gs)"
  by (auto simp: opening_ok_def split: list.splits frame.splits)

lemma event_frames_no_start: "list_all (\<lambda>f. \<not> is_message_start f) (event_frames e)"
  by (cases e) (auto simp: event_frames_def)

lemma fallback_frames_no_start: "list_all (\<lambda>f. \<not> is_message_start f) (fallback_frames i ts)"
  by (induction i ts rule: fallback_frames.induct) auto

lemma step_opening_ok: "opening_ok (out s) \<Longrightarrow> opening_ok (out (step cfg s a))"
proof (cases a)
  case (Yield m)
  assume "opening_ok (out s)"
  then show ?thesis unfolding Yield
    by (cases m)
       (auto simp: step_defs Let_def opening_ok_append event_frames_no_start
          fallback_frames_no_start split: option.splits if_splits)
qed (auto simp: step_defs Let_def opening_ok_append split: option.splits if_splits)

lemma reach_opening_ok: "opening_ok (out (exec cfg (start cfg req now) as))"
proof (rule exec_invariant [where P = "\<lambda>s. opening_ok (out s)"])
  show "opening_ok (out (start cfg req now))"
    by (simp add: start_def opening_ok_def)
qed (rule step_opening_ok)

subsection \<open>The frames of an undisturbed run\<close>

lemma settled_step: "settled s \<Longrightarrow> settled (step cfg s a)"
proof (cases a)
  case (Yield m)
  assume "settled s"
  then show ?thesis unfolding Yield
    by (cases m)
       (auto simp: settled_def step_defs Let_def opened_append opened_closing opened_error
          event_frames_plain fallback_frames_plain split: option.splits if_splits)
qed (auto simp: settled_def step_defs Let_def opened_append opened_closing opened_error
       split: option.splits if_splits)

lemma reach_settled: "settled (exec cfg (start cfg req now) as)"
proof (rule exec_invariant [where P = settled])
  show "settled (start cfg req now)"
    by (simp add: settled_def start_def opened_def)
qed (rule settled_step)

subsection \<open>While the loop runs no message has been closed or failed\<close>

lemma step_streaming_opened:
  "(phase s \<noteq> Finished \<longrightarrow> opened (out s)) \<Longrightarrow>
   (phase (step cfg s a) \<noteq> Finished \<longrightarrow> opened (out (step cfg s a)))"
proof (cases a)
  case (Yield m)
  assume "phase s \<noteq> Finished \<longrightarrow> opened (out s)"
  then show ?thesis unfolding Yield
    by (cases m)
       (auto simp: step_defs Let_def opened_append event_frames_plain fallback_frames_plain
          split: option.splits if_splits)
qed (auto simp: step_defs Let_def opened_append split: option.splits if_splits)

lemma reach_streaming_opened:
  "phase (exec cfg (start cfg req now) as) \<noteq> Finished
   \<longrightarrow> opened (out (exec cfg (start cfg req now) as))"
proof (rule exec_invariant [where P = "\<lambda>s. phase s \<noteq> Finished \<longrightarrow> opened (out s)"])
  show "phase (start cfg req now) \<noteq> Finished \<longrightarrow> opened (out (start cfg req now))"
    by (simp add: start_def opened_def)
qed (rule step_streaming_opened)

subsection \<open>After the client has gone\<close>

lemma gone_step:
  "gone s \<Longrightarrow> gone (step cfg s a) \<and> out (step cfg s a) = out s
               \<and> aborted (step cfg s a) = aborted s"
  by (cases a) (auto simp: gone_def step_defs Let_def split: option.splits)

lemma gone_exec:
  "gone s \<Longrightarrow> gone (exec cfg s as) \<and> out (exec cfg s as) = out s
               \<and> aborted (exec cfg s as) = aborted s"
proof (induction as arbitrary: s)
  case Nil
  then show ?case by (simp add: exec_Nil)
next
  case (Cons a as)
  from gone_step [OF Cons.prems, of cfg a] Cons.IH [of "step cfg s a"]
  show ?case by (simp add: exec_Cons)
qed

lemma gone_cancel: "gone (cancel s) \<and> out (cancel s) = out s \<and> aborted (cancel s) = aborted s"
  by (simp add: gone_def cancel_def clearTimers_def)

subsection \<open>Stream events and the fallback\<close>

lemma step_seen:
  "phase s = Finished \<or> hasStreamEvents s \<Longrightarrow>
   phase (step cfg s a) = Finished \<or> hasStreamEvents (step cfg s a)"
  by (cases a) (auto simp: step_defs Let_def split: option.splits sdk_message.splits)

lemma step_stream_yield:
  "is_stream_yield a \<Longrightarrow> phase (step cfg s a) = Finished \<or> hasStreamEvents (step cfg s a)"
  by (cases a rule: is_stream_yield.cases)
     (auto simp: step_defs Let_def split: option.splits)

lemma exec_seen:
  "list_ex is_stream_yield as \<or> phase s = Finished \<or> hasStreamEvents s \<Longrightarrow>
   phase (exec cfg s as) = Finished \<or> hasStreamEvents (exec cfg s as)"
proof (induction as arbitrary: s)
  case Nil
  then show ?case by (simp add: exec_Nil)
next
  case (Cons a as)
  have "list_ex is_stream_yield as \<or> phase (step cfg s a) = Finished
        \<or> hasStreamEvents (step cfg s a)"
    using Cons.prems step_seen [of s cfg a] step_stream_yield [of a cfg s] by auto
  from Cons.IH [OF this] show ?case by (simp add: exec_Cons)
qed

lemma step_unseen:
  "\<not> is_stream_yield a \<Longrightarrow> \<not> hasStreamEvents s \<Longrightarrow> \<not> hasStreamEvents (step cfg s a)"
  by (cases a rule: is_stream_yield.cases)
     (auto simp: step_defs Let_def split: option.splits sdk_message.splits)

lemma exec_unseen:
  "\<not> list_ex is_stream_yield as \<Longrightarrow> \<not> hasStreamEvents s \<Longrightarrow>
   \<not> hasStreamEvents (exec cfg s as)"
  by (induction as arbitrary: s) (simp_all add: exec_Nil exec_Cons step_unseen)

lemma fallback_frames_zip:
  "fallback_frames k ts =
     concat (map (\<lambda>(i, t). [ContentBlockStart i,
                             ContentBlockDelta i \<lparr>dtype = ''text_delta'', dbody = t\<rparr>,
                             ContentBlockStop i])
                 (zip [k..<k + length ts] ts))"
proof (induction ts arbitrary: k)
  case Nil
  then show ?case by simp
next
  case (Cons t ts)
  have "[k..<k + length (t # ts)] = k # [Suc k..<k + length (t # ts)]"
    by (rule upt_conv_Cons) simp
  then have "[k..<k + length (t # ts)] = k # [Suc k..<Suc k + length ts]"
    by simp
  then show ?case using Cons.IH [of "Suc k"] by simp
qed

lemma fallback_frames_spec: "fallback_frames 0 ts = spec_triads ts"
  using fallback_frames_zip [of 0 ts] by (simp add: spec_triads_def)

section \<open>Runs of the non-streaming path\<close>

lemma nexec_append: "nexec req s (xs @ ys) = nexec req (nexec req s xs) ys"
  by (simp add: nexec_def)

lemma nexec_Cons: "nexec req s (a # as) = nexec req (nstep req s a) as"
  by (simp add: nexec_def)

lemma nexec_Nil: "nexec req s [] = s"
  by (simp add: nexec_def)

lemma nstep_returned: "returned s = Some r \<Longrightarrow> returned (nstep req s a) = Some r"
  by (cases a) (auto simp: Let_def split: option.splits)

lemma nexec_returned: "returned s = Some r \<Longrightarrow> returned (nexec req s as) = Some r"
  by (induction as arbitrary: s) (simp_all add: nexec_Nil nexec_Cons nstep_returned)

lemma nstep_running:
  assumes "\<not> terminal a" and "returned s = None"
  shows "returned (nstep req s a) = None"
    and "nclock (nstep req s a) = nclock s + duration a"
    and "nSessionId (nstep req s a)
           = (if session_of a = [] then nSessionId s else Some (last (session_of a)))"
  using assms
  by (cases a rule: session_of.cases;
      auto simp: non_message_def truthy_def Let_def split: option.splits sdk_message.splits)+

lemma nexec_running:
  assumes "\<forall>a\<in>set ys. \<not> terminal a" and "returned s = None"
  shows "returned (nexec req s ys) = None
       \<and> nclock (nexec req s ys) = nclock s + elapsed ys
       \<and> nSessionId (nexec req s ys)
           = (if reported ys = [] then nSessionId s else Some (last (reported ys)))"
  using assms
proof (induction ys arbitrary: s)
  case Nil
  then show ?case by (simp add: nexec_Nil reported_def elapsed_def)
next
  case (Cons a ys)
  have a: "\<not> terminal a" and t: "\<forall>a\<in>set ys. \<not> terminal a"
    using Cons.prems by simp_all
  note st = nstep_running [OF a Cons.prems(2), of req]
  note ih = Cons.IH [OF t st(1)]
  show ?case
    unfolding nexec_Cons using ih st(2,3)
    by (auto simp: reported_def elapsed_def)
qed

lemma nstart_running:
  assumes "\<forall>a\<in>set ys. \<not> terminal a"
  shows "returned (nexec req (nstart cfg now) ys) = None"
    and "nclock (nexec req (nstart cfg now) ys) = now + elapsed ys"
    and "nSessionId (nexec req (nstart cfg now) ys)
           = (if reported ys = [] then None else Some (last (reported ys)))"
  using nexec_running [OF assms, of "nstart cfg now" req] by (simp_all add: nstart_def)

lemma reported_not_empty: "x \<in> set (reported as) \<Longrightarrow> x \<noteq> []"
proof -
  have "x \<in> set (session_of a) \<Longrightarrow> x \<noteq> []" for a
    by (cases a rule: session_of.cases) (auto split: if_splits)
  then show "x \<in> set (reported as) \<Longrightarrow> x \<noteq> []"
    by (auto simp: reported_def)
qed

lemma handle_done:
  assumes "\<forall>a\<in>set ys. \<not> terminal a" and "body_stream req = Some False"
  shows "handleMessages cfg req now (ys @ Done # rest)
         = Some (ok_response req (nexec req (nstart cfg now) ys))"
  using nstart_running(1) [OF assms(1), of req cfg now] assms(2)
  by (simp add: handleMessages_def nexec_append nexec_Cons nexec_returned)

lemma handle_throw:
  assumes "\<forall>a\<in>set ys. \<not> terminal a" and "body_stream req = Some False"
  shows "handleMessages cfg req now (ys @ Throw e # rest) = Some (error_response e)"
  using nstart_running(1) [OF assms(1), of req cfg now] assms(2)
  by (simp add: handleMessages_def nexec_append nexec_Cons nexec_returned)

subsection \<open>The timer of the non-streaming path\<close>

lemma nstep_aborted: "naborted s \<Longrightarrow> naborted (nstep req s a)"
  by (cases a) (auto simp: non_message_def Let_def split: option.splits sdk_message.splits)

lemma nexec_aborted: "naborted s \<Longrightarrow> naborted (nexec req s as)"
  by (induction as arbitrary: s) (simp_all add: nexec_Nil nexec_Cons nstep_aborted)

lemma nexec_in_time:
  "\<not> naborted s \<Longrightarrow> \<forall>d. ntimeout s = Some d \<longrightarrow> nclock s + elapsed as < d \<Longrightarrow>
   \<not> naborted (nexec req s as)"
proof (induction as arbitrary: s)
  case Nil
  then show ?case by (simp add: nexec_Nil)
next
  case (Cons a as)
  have "\<not> naborted (nstep req s a)
        \<and> (\<forall>d. ntimeout (nstep req s a) = Some d \<longrightarrow> nclock (nstep req s a) + elapsed as < d)"
    using Cons.prems
    by (cases a)
       (auto simp: non_message_def elapsed_def Let_def split: option.splits sdk_message.splits)
  then show ?case using Cons.IH [of "nstep req s a"] by (simp add: nexec_Cons)
qed

lemma nexec_late:
  "\<forall>a\<in>set as. \<not> terminal a \<Longrightarrow> returned s = None \<Longrightarrow> ntimeout s = Some d \<Longrightarrow>
   nclock s < d \<Longrightarrow> d \<le> nclock s + elapsed as \<Longrightarrow> naborted (nexec req s as)"
proof (induction as arbitrary: s)
  case Nil
  then show ?case by (simp add: elapsed_def)
next
  case (Cons a as)
  show ?case
  proof (cases "naborted (nstep req s a)")
    case True
    then show ?thesis by (simp add: nexec_Cons nexec_aborted)
  next
    case False
    have "returned (nstep req s a) = None \<and> ntimeout (nstep req s a) = Some d
          \<and> nclock (nstep req s a) < d \<and> d \<le> nclock (nstep req s a) + elapsed as"
      using Cons.prems False
      by (cases a)
         (auto simp: non_message_def elapsed_def Let_def split: option.splits sdk_message.splits if_splits)
    then show ?thesis using Cons.IH [of "nstep req s a"] Cons.prems(1) by (simp add: nexec_Cons)
  qed
qed

section \<open>The session identifier of the streaming path\<close>

lemma step_finished:
  "phase s = Finished \<Longrightarrow>
   phase (step cfg s a) = Finished \<and> currentSessionId (step cfg s a) = currentSessionId s"
  by (cases a) (auto simp: step_defs Let_def split: option.splits)

lemma exec_finished:
  "phase s = Finished \<Longrightarrow> currentSessionId (exec cfg s as) = currentSessionId s"
proof (induction as arbitrary: s)
  case Nil
  then show ?case by (simp add: exec_Nil)
next
  case (Cons a as)
  from step_finished [OF Cons.prems, of cfg a] Cons.IH [of "step cfg s a"]
  show ?case by (simp add: exec_Cons)
qed

lemma step_session_kept:
  "currentSessionId s = Some x \<Longrightarrow> x \<noteq> [] \<Longrightarrow> currentSessionId (step cfg s a) = Some x"
  by (cases a)
     (auto simp: step_defs truthy_def Let_def split: option.splits sdk_message.splits)

lemma exec_session_kept:
  "currentSessionId s = Some x \<Longrightarrow> x \<noteq> [] \<Longrightarrow> currentSessionId (exec cfg s as) = Some x"
  by (induction as arbitrary: s) (simp_all add: exec_Nil exec_Cons step_session_kept)

lemma step_no_session:
  "session_of a = [] \<Longrightarrow> currentSessionId s = None \<Longrightarrow>
   currentSessionId (step cfg s a) = None"
  by (cases a rule: session_of.cases)
     (auto simp: step_defs truthy_def Let_def split: option.splits sdk_message.splits if_splits)

lemma step_first_session:
  "session_of a = [x] \<Longrightarrow> currentSessionId s = None \<Longrightarrow>
   currentSessionId (step cfg s a) = Some x
   \<or> phase (step cfg s a) = Finished \<and> currentSessionId (step cfg s a) = None"
  by (cases a rule: session_of.cases)
     (auto simp: step_defs truthy_def Let_def split: option.splits if_splits)

lemma session_of_cases: "session_of a = [] \<or> (\<exists>x. x \<noteq> [] \<and> session_of a = [x])"
  by (cases a rule: session_of.cases) auto

lemma exec_first_session:
  "currentSessionId s = None \<Longrightarrow> currentSessionId (exec cfg s as) = Some sid \<Longrightarrow>
   reported as \<noteq> [] \<and> hd (reported as) = sid"
proof (induction as arbitrary: s)
  case Nil
  then show ?case by (simp add: exec_Nil)
next
  case (Cons a as)
  from session_of_cases [of a] show ?case
  proof
    assume e: "session_of a = []"
    from step_no_session [OF e Cons.prems(1), of cfg]
    have "reported as \<noteq> [] \<and> hd (reported as) = sid"
      using Cons.IH [of "step cfg s a"] Cons.prems(2) by (simp add: exec_Cons)
    then show ?thesis using e by (simp add: reported_def)
  next
    assume "\<exists>x. x \<noteq> [] \<and> session_of a = [x]"
    then obtain x where x: "x \<noteq> []" "session_of a = [x]" by blast
    from step_first_session [OF x(2) Cons.prems(1), of cfg]
    have "currentSessionId (exec cfg (step cfg s a) as) = Some x
          \<or> currentSessionId (exec cfg (step cfg s a) as) = None"
      using exec_session_kept [of "step cfg s a" x cfg as] x(1)
            exec_finished [of "step cfg s a" cfg as]
      by auto
    then have "sid = x" using Cons.prems(2) by (simp add: exec_Cons)
    then show ?thesis using x(2) by (simp add: reported_def)
  qed
qed

lemma reach_first_session:
  assumes "currentSessionId (exec cfg (start cfg req now) as) = Some sid"
  shows "reported as \<noteq> []" and "hd (reported as) = sid" and "sid \<noteq> []"
proof -
  have n: "currentSessionId (start cfg req now) = None" by (simp add: start_def)
  from exec_first_session [OF n assms]
  show a: "reported as \<noteq> []" and b: "hd (reported as) = sid" by simp_all
  from a b have "sid \<in> set (reported as)" by (metis list.set_sel(1))
  then show "sid \<noteq> []" by (rule reported_not_empty)
qed

section \<open>The inactivity timer of the streaming path\<close>

lemma step_aborted: "aborted s \<Longrightarrow> aborted (step cfg s a)"
  by (cases a) (auto simp: step_defs Let_def split: option.splits sdk_message.splits)

lemma gap_aborts:
  assumes "settled s" and "phase s \<noteq> Finished" and "\<not> clientDisconnected s"
    and "setTimeout_delay (inactivity_ms cfg) \<le> n"
  shows "aborted (step cfg (step cfg s (Yield m)) (Elapse n))"
proof (cases "aborted s")
  case True
  then show ?thesis by (intro step_aborted)
next
  case False
  then have "\<not> closed s" using assms(1-3) by (simp add: settled_def)
  then show ?thesis
    using assms(2-4)
    by (cases m)
       (auto simp: step_defs Let_def split: option.splits if_splits)
qed

lemma setTimeout_delay_pos: "0 < setTimeout_delay d"
  by (auto simp: setTimeout_delay_def split: option.splits)

text \<open>
  Gaps that each stay below the inactivity delay, and together below the total delay,
  fire no timer: each consumed message restarts the inactivity timer.
\<close>

lemma timeline_quiet:
  assumes "\<forall>p\<in>set gs. fst p < setTimeout_delay (inactivity_ms cfg)"
    and "timeoutId s = Some d" and "clock s + sum_list (map fst gs) < d"
    and "inactivityTimeoutId s = Some (clock s + setTimeout_delay (inactivity_ms cfg))"
    and "\<not> aborted s" and "\<not> closed s" and "\<not> clientDisconnected s"
    and "phase s \<noteq> Finished"
  shows "\<not> aborted (exec cfg s (timeline gs))"
  using assms
proof (induction gs arbitrary: s)
  case Nil
  then show ?case by (simp add: timeline_def exec_Nil)
next
  case (Cons p gs)
  obtain g m where p: "p = (g, m)" by (cases p)
  define s' where "s' = step cfg (step cfg s (Elapse g)) (Yield m)"
  have g: "g < setTimeout_delay (inactivity_ms cfg)" and gd: "clock s + g < d"
    using Cons.prems(1,3) p by simp_all
  have st: "timeoutId s' = Some d \<and> clock s' = clock s + g
        \<and> inactivityTimeoutId s' = Some (clock s' + setTimeout_delay (inactivity_ms cfg))
        \<and> \<not> aborted s' \<and> \<not> closed s' \<and> \<not> clientDisconnected s' \<and> phase s' \<noteq> Finished"
    unfolding s'_def using Cons.prems(2,4-8) g gd
    by (cases m) (auto simp: step_defs Let_def)
  have e: "exec cfg s (timeline (p # gs)) = exec cfg s' (timeline gs)"
    by (simp add: timeline_def p exec_Cons s'_def)
  have "\<not> aborted (exec cfg s' (timeline gs))"
  proof (rule Cons.IH)
    show "\<forall>p\<in>set gs. fst p < setTimeout_delay (inactivity_ms cfg)"
      using Cons.prems(1) by simp
    show "clock s' + sum_list (map fst gs) < d"
      using st Cons.prems(3) p by simp
  qed (use st in simp_all)
  then show ?case unfolding e .
qed

section \<open>A closed stream takes no more frames\<close>

lemma closed_step: "closed s \<Longrightarrow> closed (step cfg s a) \<and> out (step cfg s a) = out s"
  by (cases a) (auto simp: step_defs Let_def split: option.splits sdk_message.splits)

lemma closed_exec: "closed s \<Longrightarrow> out (exec cfg s as) = out s"
proof (induction as arbitrary: s)
  case Nil
  then show ?case by (simp add: exec_Nil)
next
  case (Cons a as)
  from closed_step [OF Cons.prems, of cfg a] Cons.IH [of "step cfg s a"]
  show ?case by (simp add: exec_Cons)
qed

lemma step_disturbed_closed:
  "(aborted s \<or> clientDisconnected s \<longrightarrow> closed s) \<Longrightarrow>
   (aborted (step cfg s a) \<or> clientDisconnected (step cfg s a) \<longrightarrow> closed (step cfg s a))"
  by (cases a) (auto simp: step_defs Let_def split: option.splits sdk_message.splits)

lemma reach_disturbed_closed:
  "aborted (exec cfg (start cfg req now) as) \<or> clientDisconnected (exec cfg (start cfg req now) as)
   \<longrightarrow> closed (exec cfg (start cfg req now) as)"
proof (rule exec_invariant [where P = "\<lambda>s. aborted s \<or> clientDisconnected s \<longrightarrow> closed s"])
  show "aborted (start cfg req now) \<or> clientDisconnected (start cfg req now)
        \<longrightarrow> closed (start cfg req now)"
    by (simp add: start_def)
qed (rule step_disturbed_closed)

lemma opened_not_well_framed: "opened fs \<Longrightarrow> \<not> well_framed fs"
proof
  assume o: "opened fs" and w: "well_framed fs"
  from o obtain i m rest where fs: "fs = MessageStart i m # ContentBlockStart 0 # rest"
    and pl: "list_all (\<lambda>f. \<not> lifecycle f) rest"
    by (auto simp: opened_def split: list.splits frame.splits)
  from pl have "list_all (\<lambda>f. \<not> lifecycle f) (rev rest)" by simp
  with w fs show False
    by (cases "rev rest") (auto simp: well_framed_def split: list.splits frame.splits)
qed

section \<open>Header values\<close>

lemma dropWhile_none: "list_all (\<lambda>c. \<not> P c) xs \<Longrightarrow> dropWhile P xs = xs"
  by (cases xs) simp_all

lemma header_value_plain: "list_all plain_char v \<Longrightarrow> header_value v = Some v"
proof -
  assume a: "list_all plain_char v"
  then have w: "list_all (\<lambda>c. \<not> http_whitespace c) v"
    by (simp add: plain_char_def list_all_iff)
  then have w': "list_all (\<lambda>c. \<not> http_whitespace c) (rev v)" by simp
  have n: "\<not> list_ex (\<lambda>c. c = CHR 0x00 \<or> c = CHR 0x0A \<or> c = CHR 0x0D) v"
    using a by (auto simp: plain_char_def http_whitespace_def list_all_iff list_ex_iff)
  show ?thesis
    using n by (simp add: header_value_def dropWhile_none [OF w] dropWhile_none [OF w'])
qed

lemma digit_plain: "k < 10 \<Longrightarrow> plain_char (char_of (48 + k :: nat))"
proof -
  assume k: "k < 10"
  have "of_char (char_of (48 + k)) = 48 + k"
    using k by simp
  moreover have "of_char c \<in> {0, 9, 10, 13, 32 :: nat}" if "\<not> plain_char c" for c
    using that by (auto simp: plain_char_def http_whitespace_def)
  ultimately show ?thesis using k by (cases "plain_char (char_of (48 + k))") fastforce+
qed

lemma dec_plain: "list_all plain_char (dec n)"
proof (induction n rule: dec.induct)
  case (1 n)
  show ?case
  proof (cases "n < 10")
    case True
    then show ?thesis by (subst dec.simps) (simp add: digit_plain)
  next
    case False
    then show ?thesis using "1.IH" by (subst dec.simps) (simp add: digit_plain)
  qed
qed

lemma header_value_session:
  "header_value (''session_'' @ dec n) = Some (''session_'' @ dec n)"
  by (rule header_value_plain)
     (simp add: dec_plain, simp add: plain_char_def http_whitespace_def)

lemma or_else_not_empty: "b \<noteq> [] \<Longrightarrow> or_else a b \<noteq> []"
  by (auto simp: or_else_def split: option.splits)

lemma classify_auth: "(fst (classify e) = ''authentication_error'') = isExitCode1 e"
  by (simp add: classify_def)


section \<open>Concrete runs\<close>

lemmas run_defs = exec_def start_def default_config_def sample_request_def step_defs
  event_frames_def truthy_def setTimeout_delay_def Let_def

lemmas nrun_defs = handleMessages_def nexec_def nstart_def default_config_def
  sample_request_def sample_request_json_def non_message_def ok_response_def
  error_response_def or_else_def truthy_def session_id_of_def session_header_def
  isExitCode1_def errorMessage_def header_value_def http_whitespace_def
  header_failure_def setTimeout_delay_def Let_def


section \<open>The claims on the streaming path\<close>

text \<open>
  C2 (as amended): every streamed response starts with exactly one \<open>message_start\<close>
  frame followed by a \<open>content_block_start\<close> frame of index 0. When the run has
  finished, no timer has fired and the client has not disconnected, the sequence ends
  with \<open>content_block_stop\<close>, \<open>message_delta\<close> with stop reason \<open>end_turn\<close> and
  \<open>message_stop\<close>, in that order, or with a single \<open>error\<close> frame, with only
  content-block frames and keep-alive comments in between. When a timer has fired or
  the client has disconnected while the loop runs, no frame is written from then on,
  whatever follows: the sequence stays the opening followed by content-block frames and
  keep-alive comments, with neither the closing frames nor an \<open>error\<close> frame.
\<close>

theorem C2_frame_sequence:
  "opening_ok (out (exec cfg (start cfg req now) as))
   \<and> (phase (exec cfg (start cfg req now) as) = Finished
      \<and> \<not> aborted (exec cfg (start cfg req now) as)
      \<and> \<not> clientDisconnected (exec cfg (start cfg req now) as)
      \<longrightarrow> well_framed (out (exec cfg (start cfg req now) as)))
   \<and> (phase (exec cfg (start cfg req now) as) \<noteq> Finished
      \<and> (aborted (exec cfg (start cfg req now) as)
           \<or> clientDisconnected (exec cfg (start cfg req now) as))
      \<longrightarrow> out (exec cfg (start cfg req now) (as @ later))
             = out (exec cfg (start cfg req now) as)
          \<and> opened (out (exec cfg (start cfg req now) (as @ later)))
          \<and> \<not> well_framed (out (exec cfg (start cfg req now) (as @ later))))"
proof -
  define s where "s = exec cfg (start cfg req now) as"
  have a: "opening_ok (out s)"
    unfolding s_def by (rule reach_opening_ok)
  have b: "phase s = Finished \<and> \<not> aborted s \<and> \<not> clientDisconnected s
           \<longrightarrow> well_framed (out s)"
    using reach_settled [of cfg req now as] by (simp add: settled_def s_def)
  have c: "out (exec cfg s later) = out s \<and> opened (out (exec cfg s later))
           \<and> \<not> well_framed (out (exec cfg s later))"
    if "phase s \<noteq> Finished" "aborted s \<or> clientDisconnected s"
  proof -
    have "closed s"
      using that(2) reach_disturbed_closed [of cfg req now as] by (simp add: s_def)
    then have e: "out (exec cfg s later) = out s" by (rule closed_exec)
    have o: "opened (out s)"
      using that(1) reach_streaming_opened [of cfg req now as] by (simp add: s_def)
    show ?thesis unfolding e using o by (simp add: opened_not_well_framed)
  qed
  show ?thesis using a b c unfolding s_def exec_append by blast
qed

theorem C2_frame_sequence_witness:
  "phase (exec default_config (start default_config sample_request 0)
       [Yield (StreamEvent (EvContentBlockDelta 0 \<lparr>dtype = ''text_delta'', dbody = ''hello''\<rparr>)),
        Yield (Assistant (Some ''abc'') [TextBlock ''hello'']), Yield Result, Done]) = Finished
   \<and> \<not> aborted (exec default_config (start default_config sample_request 0)
       [Yield (StreamEvent (EvContentBlockDelta 0 \<lparr>dtype = ''text_delta'', dbody = ''hello''\<rparr>)),
        Yield (Assistant (Some ''abc'') [TextBlock ''hello'']), Yield Result, Done])
   \<and> \<not> clientDisconnected (exec default_config (start default_config sample_request 0)
       [Yield (StreamEvent (EvContentBlockDelta 0 \<lparr>dtype = ''text_delta'', dbody = ''hello''\<rparr>)),
        Yield (Assistant (Some ''abc'') [TextBlock ''hello'']), Yield Result, Done])
   \<and> well_framed (out (exec default_config (start default_config sample_request 0)
       [Yield (StreamEvent (EvContentBlockDelta 0 \<lparr>dtype = ''text_delta'', dbody = ''hello''\<rparr>)),
        Yield (Assistant (Some ''abc'') [TextBlock ''hello'']), Yield Result, Done]))
   \<and> out (exec default_config (start default_config sample_request 0)
       [Yield (StreamEvent (EvContentBlockDelta 0 \<lparr>dtype = ''text_delta'', dbody = ''hello''\<rparr>)),
        Yield (Assistant (Some ''abc'') [TextBlock ''hello'']), Yield Result, Done])
     = [MessageStart (''msg_'' @ dec 0) (Some ''sonnet''), ContentBlockStart 0,
        ContentBlockDelta 0 \<lparr>dtype = ''text_delta'', dbody = ''hello''\<rparr>,
        ContentBlockStop 0, MessageDelta ''end_turn'', MessageStop]
   \<and> phase (exec default_config (start default_config sample_request 0)
       [Yield (StreamEvent (EvContentBlockDelta 0 \<lparr>dtype = ''text_delta'', dbody = ''hello''\<rparr>)),
        Cancel]) \<noteq> Finished
   \<and> clientDisconnected (exec default_config (start default_config sample_request 0)
       [Yield (StreamEvent (EvContentBlockDelta 0 \<lparr>dtype = ''text_delta'', dbody = ''hello''\<rparr>)),
        Cancel])
   \<and> out (exec default_config (start default_config sample_request 0)
       ([Yield (StreamEvent (EvContentBlockDelta 0 \<lparr>dtype = ''text_delta'', dbody = ''hello''\<rparr>)),
        Cancel] @ [Yield Result, Done]))
     = [MessageStart (''msg_'' @ dec 0) (Some ''sonnet''), ContentBlockStart 0,
        ContentBlockDelta 0 \<lparr>dtype = ''text_delta'', dbody = ''hello''\<rparr>]"
  using C2_frame_sequence [of default_config sample_request 0
       "[Yield (StreamEvent (EvContentBlockDelta 0 \<lparr>dtype = ''text_delta'', dbody = ''hello''\<rparr>)),
        Yield (Assistant (Some ''abc'') [TextBlock ''hello'']), Yield Result, Done]" "[]"]
        C2_frame_sequence [of default_config sample_request 0
       "[Yield (StreamEvent (EvContentBlockDelta 0 \<lparr>dtype = ''text_delta'', dbody = ''hello''\<rparr>)),
        Cancel]" "[Yield Result, Done]"]
  by (simp add: run_defs)

text \<open>
  Two streamed responses that end with neither the closing frames nor an \<open>error\<close>
  frame: the client disconnects and the engine then raises; the inactivity timer fires
  and the engine then raises.
\<close>

theorem C2_counterexample:
  "out (exec default_config (start default_config sample_request 0)
          [Cancel, Throw (JsError ''Error'' ''boom'')])
     = [MessageStart (''msg_'' @ dec 0) (Some ''sonnet''), ContentBlockStart 0]
   \<and> phase (exec default_config (start default_config sample_request 0)
          [Cancel, Throw (JsError ''Error'' ''boom'')]) = Finished
   \<and> \<not> well_framed (out (exec default_config (start default_config sample_request 0)
          [Cancel, Throw (JsError ''Error'' ''boom'')]))
   \<and> out (exec default_config (start default_config sample_request 0)
          [Elapse 900000, Throw (JsError ''AbortError'' ''Stream inactivity timeout'')])
     = [MessageStart (''msg_'' @ dec 0) (Some ''sonnet''), ContentBlockStart 0]
   \<and> phase (exec default_config (start default_config sample_request 0)
          [Elapse 900000, Throw (JsError ''AbortError'' ''Stream inactivity timeout'')]) = Finished
   \<and> \<not> well_framed (out (exec default_config (start default_config sample_request 0)
          [Elapse 900000, Throw (JsError ''AbortError'' ''Stream inactivity timeout'')]))"
  by (simp add: run_defs well_framed_def)

text \<open>
  C3: a nested \<open>content_block_start\<close> event whose block type is \<open>tool_use\<close> adds no
  frame, a nested delta whose type is not \<open>text_delta\<close> (a tool-input delta) adds no
  frame, and a nested \<open>content_block_stop\<close> event, consumed while the stream is open,
  adds a \<open>content_block_stop\<close> frame with the event's index, whatever block it closes.
\<close>

theorem C3_tool_suppression:
  "out (step cfg (exec cfg (start cfg req now) as)
          (Yield (StreamEvent (EvContentBlockStart i (Some ''tool_use'')))))
     = out (exec cfg (start cfg req now) as)
   \<and> (dtype d \<noteq> ''text_delta'' \<longrightarrow>
        out (step cfg (exec cfg (start cfg req now) as)
               (Yield (StreamEvent (EvContentBlockDelta i d))))
          = out (exec cfg (start cfg req now) as))
   \<and> (phase (exec cfg (start cfg req now) as) \<noteq> Finished
        \<and> \<not> closed (exec cfg (start cfg req now) as) \<longrightarrow>
        out (step cfg (exec cfg (start cfg req now) as)
               (Yield (StreamEvent (EvContentBlockStop i))))
          = out (exec cfg (start cfg req now) as) @ [ContentBlockStop i])"
proof -
  define s where "s = exec cfg (start cfg req now) as"
  have dc: "clientDisconnected s \<longrightarrow> closed s"
    unfolding s_def by (rule reach_disc_closed)
  have a: "out (step cfg s (Yield (StreamEvent (EvContentBlockStart i (Some ''tool_use''))))) = out s"
    using dc by (auto simp: step_defs event_frames_def truthy_def Let_def)
  have b: "dtype d \<noteq> ''text_delta'' \<longrightarrow>
        out (step cfg s (Yield (StreamEvent (EvContentBlockDelta i d)))) = out s"
    using dc by (auto simp: step_defs event_frames_def Let_def)
  have c: "phase s \<noteq> Finished \<and> \<not> closed s \<longrightarrow>
        out (step cfg s (Yield (StreamEvent (EvContentBlockStop i)))) = out s @ [ContentBlockStop i]"
    using dc by (auto simp: step_defs event_frames_def Let_def)
  show ?thesis using a b c unfolding s_def by simp
qed

theorem C3_tool_suppression_witness:
  "phase (exec default_config (start default_config sample_request 0)
            [Yield (StreamEvent (EvContentBlockStart 1 (Some ''tool_use''))),
             Yield (StreamEvent (EvContentBlockDelta 1
                      \<lparr>dtype = ''input_json_delta'', dbody = ''{}''\<rparr>))]) \<noteq> Finished
   \<and> \<not> closed (exec default_config (start default_config sample_request 0)
            [Yield (StreamEvent (EvContentBlockStart 1 (Some ''tool_use''))),
             Yield (StreamEvent (EvContentBlockDelta 1
                      \<lparr>dtype = ''input_json_delta'', dbody = ''{}''\<rparr>))])
   \<and> out (step default_config (exec default_config (start default_config sample_request 0)
            [Yield (StreamEvent (EvContentBlockStart 1 (Some ''tool_use''))),
             Yield (StreamEvent (EvContentBlockDelta 1
                      \<lparr>dtype = ''input_json_delta'', dbody = ''{}''\<rparr>))])
          (Yield (StreamEvent (EvContentBlockStop 1))))
     = [MessageStart (''msg_'' @ dec 0) (Some ''sonnet''), ContentBlockStart 0,
        ContentBlockStop 1]"
  using C3_tool_suppression [of default_config sample_request 0
            "[Yield (StreamEvent (EvContentBlockStart 1 (Some ''tool_use''))),
             Yield (StreamEvent (EvContentBlockDelta 1
                      \<lparr>dtype = ''input_json_delta'', dbody = ''{}''\<rparr>))]" 1
            "\<lparr>dtype = ''input_json_delta'', dbody = ''{}''\<rparr>"]
  by (simp add: run_defs)

text \<open>
  C4: once a \<open>stream_event\<close> has been received in a request, an assistant turn
  received after it adds no frame; while none has been received, an assistant turn
  consumed on an open stream adds one start, delta, stop triad per text block, indexed
  by the block's position among the text blocks of the turn.
\<close>

theorem C4_fallback_exclusive:
  "(list_ex is_stream_yield as \<longrightarrow>
      out (exec cfg (start cfg req now) (as @ [Yield (Assistant sid bs)]))
        = out (exec cfg (start cfg req now) as))
   \<and> (\<not> list_ex is_stream_yield as
        \<and> phase (exec cfg (start cfg req now) as) \<noteq> Finished
        \<and> \<not> closed (exec cfg (start cfg req now) as) \<longrightarrow>
      out (exec cfg (start cfg req now) (as @ [Yield (Assistant sid bs)]))
        = out (exec cfg (start cfg req now) as) @ spec_triads (textBlocks bs))"
proof -
  define s where "s = exec cfg (start cfg req now) as"
  have dc: "clientDisconnected s \<longrightarrow> closed s"
    unfolding s_def by (rule reach_disc_closed)
  have a: "out (step cfg s (Yield (Assistant sid bs))) = out s"
    if "list_ex is_stream_yield as"
  proof -
    have "phase s = Finished \<or> hasStreamEvents s"
      unfolding s_def using that by (intro exec_seen) simp
    then show ?thesis
      using dc by (auto simp: step_defs Let_def split: option.splits)
  qed
  have b: "out (step cfg s (Yield (Assistant sid bs))) = out s @ spec_triads (textBlocks bs)"
    if "\<not> list_ex is_stream_yield as" "phase s \<noteq> Finished" "\<not> closed s"
  proof -
    have "\<not> hasStreamEvents s"
      unfolding s_def using that(1) by (intro exec_unseen) (simp_all add: start_def)
    then show ?thesis
      using dc that(2,3)
      by (auto simp: step_defs Let_def fallback_frames_spec split: option.splits)
  qed
  show ?thesis using a b unfolding s_def exec_snoc by blast
qed

theorem C4_fallback_exclusive_witness:
  "list_ex is_stream_yield [Yield (StreamEvent (EvContentBlockStop 0))]
   \<and> out (exec default_config (start default_config sample_request 0)
            ([Yield (StreamEvent (EvContentBlockStop 0))]
               @ [Yield (Assistant (Some ''abc'') [TextBlock ''hello''])]))
     = [MessageStart (''msg_'' @ dec 0) (Some ''sonnet''), ContentBlockStart 0,
        ContentBlockStop 0]
   \<and> \<not> list_ex is_stream_yield [Yield System]
   \<and> phase (exec default_config (start default_config sample_request 0) [Yield System])
       \<noteq> Finished
   \<and> \<not> closed (exec default_config (start default_config sample_request 0) [Yield System])
   \<and> out (exec default_config (start default_config sample_request 0)
            ([Yield System]
               @ [Yield (Assistant (Some ''abc'')
                           [TextBlock ''a'', ToolUseBlock, TextBlock ''b''])]))
     = [MessageStart (''msg_'' @ dec 0) (Some ''sonnet''), ContentBlockStart 0,
        ContentBlockStart 0, ContentBlockDelta 0 \<lparr>dtype = ''text_delta'', dbody = ''a''\<rparr>,
        ContentBlockStop 0,
        ContentBlockStart 1, ContentBlockDelta 1 \<lparr>dtype = ''text_delta'', dbody = ''b''\<rparr>,
        ContentBlockStop 1]"
  using C4_fallback_exclusive [of "[Yield (StreamEvent (EvContentBlockStop 0))]"
          default_config sample_request 0 "Some ''abc''" "[TextBlock ''hello'']"]
        C4_fallback_exclusive [of "[Yield System]"
          default_config sample_request 0 "Some ''abc''"
          "[TextBlock ''a'', ToolUseBlock, TextBlock ''b'']"]
  by (simp add: run_defs spec_triads_def upt_rec)

text \<open>
  C7: when the client disconnects while the loop of a streamed request runs, no
  \<open>error\<close> frame is ever written for the request (no frame at all is written after the
  disconnect), both timers are cleared and stay so, and the abort signal is left as it
  was, whatever happens afterwards.
\<close>

theorem C7_client_disconnect:
  "phase (exec cfg (start cfg req now) as1) \<noteq> Finished \<longrightarrow>
     list_all (\<lambda>f. \<not> is_error_frame f)
       (out (exec cfg (start cfg req now) (as1 @ Cancel # as2)))
     \<and> out (exec cfg (start cfg req now) (as1 @ Cancel # as2))
         = out (exec cfg (start cfg req now) as1)
     \<and> timeoutId (exec cfg (start cfg req now) (as1 @ Cancel # as2)) = None
     \<and> inactivityTimeoutId (exec cfg (start cfg req now) (as1 @ Cancel # as2)) = None
     \<and> aborted (exec cfg (start cfg req now) (as1 @ Cancel # as2))
         = aborted (exec cfg (start cfg req now) as1)"
proof
  define s where "s = exec cfg (start cfg req now) as1"
  assume "phase (exec cfg (start cfg req now) as1) \<noteq> Finished"
  then have "opened (out s)"
    unfolding s_def using reach_streaming_opened [of cfg req now as1] by simp
  then have ne: "list_all (\<lambda>f. \<not> is_error_frame f) (out s)"
    by (rule opened_no_error)
  have e: "exec cfg (start cfg req now) (as1 @ Cancel # as2) = exec cfg (cancel s) as2"
    by (simp add: exec_append exec_Cons s_def)
  have g: "gone (cancel s)" "out (cancel s) = out s" "aborted (cancel s) = aborted s"
    using gone_cancel [of s] by simp_all
  from gone_exec [OF g(1), of cfg as2] g(2,3) ne
  show "list_all (\<lambda>f. \<not> is_error_frame f)
       (out (exec cfg (start cfg req now) (as1 @ Cancel # as2)))
     \<and> out (exec cfg (start cfg req now) (as1 @ Cancel # as2))
         = out (exec cfg (start cfg req now) as1)
     \<and> timeoutId (exec cfg (start cfg req now) (as1 @ Cancel # as2)) = None
     \<and> inactivityTimeoutId (exec cfg (start cfg req now) (as1 @ Cancel # as2)) = None
     \<and> aborted (exec cfg (start cfg req now) (as1 @ Cancel # as2))
         = aborted (exec cfg (start cfg req now) as1)"
    unfolding e by (simp add: gone_def s_def)
qed

theorem C7_client_disconnect_witness:
  "phase (exec default_config (start default_config sample_request 0)
            [Yield (Assistant (Some ''abc'') [TextBlock ''hello''])]) \<noteq> Finished
   \<and> out (exec default_config (start default_config sample_request 0)
            ([Yield (Assistant (Some ''abc'') [TextBlock ''hello''])] @ Cancel #
             [Elapse 3600000, HeartbeatTick, Yield Result,
              Throw (JsError ''Error'' ''exited with code 1'')]))
       = [MessageStart (''msg_'' @ dec 0) (Some ''sonnet''), ContentBlockStart 0,
          ContentBlockStart 0,
          ContentBlockDelta 0 \<lparr>dtype = ''text_delta'', dbody = ''hello''\<rparr>,
          ContentBlockStop 0]
   \<and> \<not> aborted (exec default_config (start default_config sample_request 0)
            ([Yield (Assistant (Some ''abc'') [TextBlock ''hello''])] @ Cancel #
             [Elapse 3600000, HeartbeatTick, Yield Result,
              Throw (JsError ''Error'' ''exited with code 1'')]))"
  using C7_client_disconnect [of default_config sample_request 0
            "[Yield (Assistant (Some ''abc'') [TextBlock ''hello''])]"
            "[Elapse 3600000, HeartbeatTick, Yield Result,
              Throw (JsError ''Error'' ''exited with code 1'')]"]
  by (simp add: run_defs)

section \<open>The claims on sessions, failures and timers\<close>

text \<open>
  C1: the header \<open>X-Claude-Session-ID\<close> of a response should be the identifier the
  engine reported, else the inbound identifier, else \<open>session_\<close> followed by the clock.
  The handler does otherwise. The header of a streamed response is fixed when the
  response is built, before any engine event is consumed: for every run of a request
  with no inbound identifier it is \<open>session_\<close> followed by the clock at the start, also
  when the engine reports \<open>abc\<close>. The non-streaming path skips the inbound identifier
  when the engine reports none, and a JSON error response carries no such header.
\<close>

theorem C1_session_header_divergence:
  "session_id_of (the (handleMessages cfg
       (req\<lparr>body_stream := None, header_session := None\<rparr>) now tr))
     = Some (''session_'' @ dec now)
   \<and> reported [Yield (Assistant (Some ''abc'') [TextBlock ''hello'']), Done] = [''abc'']
   \<and> session_id_of (the (handleMessages default_config sample_request 1000
         [Yield (Assistant (Some ''abc'') [TextBlock ''hello'']), Done]))
       = Some (''session_'' @ dec 1000)
   \<and> session_id_of (the (handleMessages default_config
         (sample_request_json\<lparr>header_session := Some ''abc123''\<rparr>) 1000
         [Yield System, Done]))
       = Some (''session_'' @ dec 1000)
   \<and> handleMessages default_config sample_request_json 1000
        [Throw (JsError ''Error'' ''boom'')]
       = Some \<lparr>r_status = 500, r_headers = [], r_body = ErrorBody ''api_error'' ''boom''\<rparr>
   \<and> session_id_of (the (handleMessages default_config sample_request_json 1000
         [Throw (JsError ''Error'' ''boom'')])) = None"
proof -
  have a: "session_id_of (the (handleMessages cfg
       (req\<lparr>body_stream := None, header_session := None\<rparr>) now tr))
     = Some (''session_'' @ dec now)" for cfg req now tr
    by (simp add: handleMessages_def stream_response_def start_def or_else_def
          header_value_session [simplified] session_id_of_def session_header_def)
  have b: "reported [Yield (Assistant (Some ''abc'') [TextBlock ''hello'']), Done] = [''abc'']"
    by (simp add: reported_def)
  have c: "session_id_of (the (handleMessages default_config sample_request 1000
         [Yield (Assistant (Some ''abc'') [TextBlock ''hello'']), Done]))
       = Some (''session_'' @ dec 1000)"
    using a [of default_config sample_request 1000] by (simp add: sample_request_def)
  have d: "session_id_of (the (handleMessages default_config
         (sample_request_json\<lparr>header_session := Some ''abc123''\<rparr>) 1000
         [Yield System, Done]))
       = Some (''session_'' @ dec 1000)"
    by (simp add: handleMessages_def nexec_def nstart_def sample_request_json_def
          sample_request_def non_message_def ok_response_def or_else_def
          header_value_session [simplified] session_id_of_def session_header_def)
  have e: "handleMessages default_config sample_request_json 1000
        [Throw (JsError ''Error'' ''boom'')]
       = Some \<lparr>r_status = 500, r_headers = [], r_body = ErrorBody ''api_error'' ''boom''\<rparr>"
    by (simp add: nrun_defs)
  show ?thesis using a b c d e by (simp add: session_id_of_def)
qed

text \<open>
  C5 (as amended): a failure of the streaming path, with the client connected and the
  stream open, adds one \<open>error\<close> frame classified by the first rule that matches: the
  message contains \<open>exited with code 1\<close> or \<open>exit code 1\<close>: \<open>authentication_error\<close>
  with the fixed message; it contains \<open>Claude Code process aborted\<close> or
  \<open>process aborted by user\<close>: \<open>api_error\<close> with the fixed explanation; the failure
  is an \<^verbatim>\<open>Error\<close> object whose message contains \<open>reset\<close> or \<open>ECONNRESET\<close> or whose
  name is \<open>AbortError\<close>: \<open>connection_error\<close> with the raw message; otherwise
  \<open>api_error\<close> with the raw message.
\<close>

theorem C5_stream_error_frame:
  "classify e = amended_classify e
   \<and> (phase s \<noteq> Finished \<and> \<not> clientDisconnected s \<and> \<not> closed s \<longrightarrow>
        out (step cfg s (Throw e))
          = out s @ [ErrorFrame (fst (amended_classify e)) (snd (amended_classify e))])"
proof -
  have a: "classify e = amended_classify e"
    by (cases e)
       (auto simp: classify_def amended_classify_def isExitCode1_def isSdkAbort_def
          isConnectionReset_def errorMessage_def Let_def)
  have "phase s \<noteq> Finished \<and> \<not> clientDisconnected s \<and> \<not> closed s \<longrightarrow>
        out (step cfg s (Throw e)) = out s @ [ErrorFrame (fst (classify e)) (snd (classify e))]"
    by (auto simp: step_defs Let_def)
  then show ?thesis using a by simp
qed

theorem C5_stream_error_frame_witness:
  "phase (start default_config sample_request 0) \<noteq> Finished
   \<and> \<not> clientDisconnected (start default_config sample_request 0)
   \<and> \<not> closed (start default_config sample_request 0)
   \<and> out (step default_config (start default_config sample_request 0)
            (Throw (JsError ''AbortError'' ''The operation was aborted'')))
     = [MessageStart (''msg_'' @ dec 0) (Some ''sonnet''), ContentBlockStart 0,
        ErrorFrame ''connection_error'' ''The operation was aborted'']"
  using C5_stream_error_frame [of "JsError ''AbortError'' ''The operation was aborted''"
          "start default_config sample_request 0" default_config]
  by (simp add: start_def default_config_def sample_request_def amended_classify_def
        errorMessage_def Let_def)

text \<open>
  The engine raises a value that is not an \<^verbatim>\<open>Error\<close> object and whose text contains
  \<open>reset\<close>: the frame emitted is an \<open>api_error\<close>, where the rules as worded give
  \<open>connection_error\<close>.
\<close>

theorem C5_counterexample:
  "out (exec default_config (start default_config sample_request 0)
          [Throw (JsThrown ''socket reset'')])
     = [MessageStart (''msg_'' @ dec 0) (Some ''sonnet''), ContentBlockStart 0,
        ErrorFrame ''api_error'' ''socket reset'']
   \<and> claimed_classify (JsThrown ''socket reset'') = (''connection_error'', ''socket reset'')"
  by (simp add: run_defs classify_def claimed_classify_def isExitCode1_def isSdkAbort_def
        isConnectionReset_def errorMessage_def)

text \<open>
  C6 (as amended): a non-streaming request whose engine call fails gets a single JSON
  error body with no header of the handler's: \<open>authentication_error\<close>, status 401 and the
  fixed message when the failure message contains \<open>exited with code 1\<close> or
  \<open>exit code 1\<close>, which is when the streaming classifier says \<open>authentication_error\<close>;
  \<open>api_error\<close>, status 500 and the raw message in every other case.
\<close>

theorem C6_nonstream_error:
  "(body_stream req = Some False \<and> (\<forall>a\<in>set ys. \<not> terminal a) \<longrightarrow>
     handleMessages cfg req now (ys @ Throw e # rest)
       = Some \<lparr>r_status = (if fst (classify e) = ''authentication_error'' then 401 else 500),
               r_headers = [],
               r_body = (if fst (classify e) = ''authentication_error''
                         then ErrorBody ''authentication_error'' auth_message
                         else ErrorBody ''api_error'' (errorMessage e))\<rparr>)
   \<and> (fst (classify e) = ''authentication_error'')
       = (js_includes (errorMessage e) ''exited with code 1''
          \<or> js_includes (errorMessage e) ''exit code 1'')"
proof -
  have "handleMessages cfg req now (ys @ Throw e # rest) = Some (error_response e)"
    if "body_stream req = Some False" "\<forall>a\<in>set ys. \<not> terminal a"
    using that by (intro handle_throw)
  then show ?thesis
    by (auto simp: error_response_def classify_auth isExitCode1_def)
qed

theorem C6_nonstream_error_witness:
  "body_stream sample_request_json = Some False
   \<and> list_all (\<lambda>a. \<not> terminal a) [Yield System]
   \<and> handleMessages default_config sample_request_json 0
        ([Yield System] @ Throw (JsError ''Error'' ''Claude Code process exited with code 1'')
           # [])
     = Some \<lparr>r_status = 401, r_headers = [],
             r_body = ErrorBody ''authentication_error'' auth_message\<rparr>"
  using C6_nonstream_error [of sample_request_json "[Yield System]"
          default_config 0 "JsError ''Error'' ''Claude Code process exited with code 1''" "[]"]
  by (simp add: sample_request_json_def errorMessage_def)

text \<open>
  A connection reset in the non-streaming path is an \<open>api_error\<close>; the classifier of
  the streaming path makes the same failure a \<open>connection_error\<close>.
\<close>

theorem C6_counterexample:
  "handleMessages default_config sample_request_json 0
     [Throw (JsError ''Error'' ''read ECONNRESET'')]
     = Some \<lparr>r_status = 500, r_headers = [],
             r_body = ErrorBody ''api_error'' ''read ECONNRESET''\<rparr>
   \<and> classify (JsError ''Error'' ''read ECONNRESET'')
       = (''connection_error'', ''read ECONNRESET'')"
  by (simp add: nrun_defs classify_def isSdkAbort_def isConnectionReset_def)

text \<open>
  How the two loops capture the session identifier: the streaming loop keeps the first
  one an assistant turn bears and never overwrites it; the non-streaming loop assigns on
  every assistant turn that bears one.
\<close>

lemma session_capture_of_both_paths:
  "(currentSessionId (exec cfg (start cfg req now) tr) = Some sid \<longrightarrow>
      currentSessionId (exec cfg (start cfg req now) (tr @ later)) = Some sid
      \<and> reported tr \<noteq> [] \<and> hd (reported tr) = sid)
   \<and> (phase (exec cfg (start cfg req now) tr) \<noteq> Finished
      \<and> \<not> clientDisconnected (exec cfg (start cfg req now) tr)
      \<and> currentSessionId (exec cfg (start cfg req now) tr) = None \<and> x \<noteq> [] \<longrightarrow>
      currentSessionId (exec cfg (start cfg req now) (tr @ [Yield (Assistant (Some x) bs)]))
        = Some x)
   \<and> ((\<forall>a\<in>set ys. \<not> terminal a) \<longrightarrow>
      nSessionId (nexec req (nstart cfg now) ys)
        = (if reported ys = [] then None else Some (last (reported ys))))"
proof (intro conjI impI)
  assume c: "currentSessionId (exec cfg (start cfg req now) tr) = Some sid"
  note f = reach_first_session [OF c]
  show "currentSessionId (exec cfg (start cfg req now) (tr @ later)) = Some sid"
    unfolding exec_append using c f(3) by (rule exec_session_kept)
  show "reported tr \<noteq> []" by (rule f(1))
  show "hd (reported tr) = sid" by (rule f(2))
next
  assume "phase (exec cfg (start cfg req now) tr) \<noteq> Finished
      \<and> \<not> clientDisconnected (exec cfg (start cfg req now) tr)
      \<and> currentSessionId (exec cfg (start cfg req now) tr) = None \<and> x \<noteq> []"
  then show "currentSessionId (exec cfg (start cfg req now) (tr @ [Yield (Assistant (Some x) bs)]))
        = Some x"
    unfolding exec_snoc
    by (auto simp: step_defs truthy_def Let_def split: option.splits)
next
  assume "\<forall>a\<in>set ys. \<not> terminal a"
  then show "nSessionId (nexec req (nstart cfg now) ys)
        = (if reported ys = [] then None else Some (last (reported ys)))"
    by (rule nstart_running(3))
qed

text \<open>
  C8: within a request the session identifier should be captured from the first engine
  event that bears one and never be overwritten. The non-streaming loop lacks the guard
  of the streaming loop: when the engine reports \<open>first\<close> and then \<open>second\<close>, the
  non-streaming response returns \<open>second\<close>, where the streaming loop keeps \<open>first\<close>.
\<close>

theorem C8_nonstream_overwrites:
  "handleMessages default_config sample_request_json 0
     [Yield (Assistant (Some ''first'') [TextBlock ''a'']),
      Yield (Assistant (Some ''second'') [TextBlock ''b'']), Done]
     = Some \<lparr>r_status = 200, r_headers = [(''X-Claude-Session-ID'', ''second'')],
             r_body = MessageBody (''msg_'' @ dec 0) ''ab'' (Some ''sonnet'')\<rparr>
   \<and> hd (reported [Yield (Assistant (Some ''first'') [TextBlock ''a'']),
                    Yield (Assistant (Some ''second'') [TextBlock ''b'']), Done]) = ''first''
   \<and> currentSessionId (exec default_config (start default_config sample_request 0)
        [Yield (Assistant (Some ''first'') [TextBlock ''a'']),
         Yield (Assistant (Some ''second'') [TextBlock ''b'']), Done]) = Some ''first''"
  by (simp add: nrun_defs run_defs reported_def)

text \<open>
  C10: in the non-streaming path a single timer is armed, with the delay the runtime
  makes of the total timeout: the abort signal is not triggered as long as the time
  elapsed is below that delay, however long the gaps between the engine's messages, and
  it is triggered once that delay has elapsed while the loop runs; the inactivity
  timeout plays no part. In the streaming path every consumed message restarts the
  inactivity timer: gaps that each stay below the inactivity delay, and together below
  the total delay, trigger nothing, and a gap of at least the inactivity delay after a
  consumed message, or after the opening frames, triggers the abort signal whatever
  the total.
\<close>

theorem C10_timers:
  "(elapsed tr < setTimeout_delay (timeout_ms cfg)
      \<longrightarrow> \<not> naborted (nexec req (nstart cfg now) tr))
   \<and> ((\<forall>a\<in>set tr. \<not> terminal a) \<and> setTimeout_delay (timeout_ms cfg) \<le> elapsed tr
        \<longrightarrow> naborted (nexec req (nstart cfg now) tr))
   \<and> (body_stream req = Some False \<longrightarrow>
        handleMessages (cfg\<lparr>inactivity_ms := k\<rparr>) req now tr = handleMessages cfg req now tr)
   \<and> ((\<forall>p\<in>set gs. fst p < setTimeout_delay (inactivity_ms cfg))
        \<and> sum_list (map fst gs) < setTimeout_delay (timeout_ms cfg)
        \<longrightarrow> \<not> aborted (exec cfg (start cfg req now) (timeline gs)))
   \<and> (phase (exec cfg (start cfg req now) tr) \<noteq> Finished
        \<and> \<not> clientDisconnected (exec cfg (start cfg req now) tr)
        \<and> setTimeout_delay (inactivity_ms cfg) \<le> n \<longrightarrow>
        aborted (exec cfg (start cfg req now) (tr @ [Yield m, Elapse n])))
   \<and> (setTimeout_delay (inactivity_ms cfg) \<le> n
        \<longrightarrow> aborted (exec cfg (start cfg req now) [Elapse n]))"
proof (intro conjI impI)
  assume "elapsed tr < setTimeout_delay (timeout_ms cfg)"
  then show "\<not> naborted (nexec req (nstart cfg now) tr)"
    by (intro nexec_in_time) (simp_all add: nstart_def)
next
  assume "(\<forall>a\<in>set tr. \<not> terminal a) \<and> setTimeout_delay (timeout_ms cfg) \<le> elapsed tr"
  then show "naborted (nexec req (nstart cfg now) tr)"
    using setTimeout_delay_pos [of "timeout_ms cfg"]
    by (intro nexec_late [where d = "now + setTimeout_delay (timeout_ms cfg)"])
       (simp_all add: nstart_def)
next
  assume "body_stream req = Some False"
  then show "handleMessages (cfg\<lparr>inactivity_ms := k\<rparr>) req now tr = handleMessages cfg req now tr"
    by (simp add: handleMessages_def nstart_def)
next
  assume "(\<forall>p\<in>set gs. fst p < setTimeout_delay (inactivity_ms cfg))
        \<and> sum_list (map fst gs) < setTimeout_delay (timeout_ms cfg)"
  then show "\<not> aborted (exec cfg (start cfg req now) (timeline gs))"
    by (intro timeline_quiet [where d = "now + setTimeout_delay (timeout_ms cfg)"])
       (simp_all add: start_def)
next
  assume "phase (exec cfg (start cfg req now) tr) \<noteq> Finished
        \<and> \<not> clientDisconnected (exec cfg (start cfg req now) tr)
        \<and> setTimeout_delay (inactivity_ms cfg) \<le> n"
  then show "aborted (exec cfg (start cfg req now) (tr @ [Yield m, Elapse n]))"
    using gap_aborts [OF reach_settled, of cfg req now tr cfg n m]
    by (simp add: exec_append exec_Cons exec_Nil)
next
  assume "setTimeout_delay (inactivity_ms cfg) \<le> n"
  then show "aborted (exec cfg (start cfg req now) [Elapse n])"
    by (simp add: exec_def start_def step_defs Let_def)
qed

text \<open>
  With the default delays (one hour, fifteen minutes): a gap of 1000000 ms leaves the
  non-streaming engine call alone and aborts the streaming one; two gaps of 600000 ms
  around a message abort neither. With a total timeout of 2147483648 the delay is 1 ms
  and a gap of 5 ms aborts the non-streaming call.
\<close>

theorem C10_timers_witness:
  "elapsed [Yield System, Elapse 1000000, Yield Result, Elapse 2000000]
     < setTimeout_delay (timeout_ms default_config)
   \<and> \<not> naborted (nexec sample_request_json (nstart default_config 0)
          [Yield System, Elapse 1000000, Yield Result, Elapse 2000000])
   \<and> list_all (\<lambda>a. \<not> terminal a) [Yield System, Elapse 5]
   \<and> setTimeout_delay (timeout_ms (default_config\<lparr>timeout_ms := Some 2147483648\<rparr>))
       \<le> elapsed [Yield System, Elapse 5]
   \<and> naborted (nexec sample_request_json
          (nstart (default_config\<lparr>timeout_ms := Some 2147483648\<rparr>) 0)
          [Yield System, Elapse 5])
   \<and> list_all (\<lambda>p. fst p < setTimeout_delay (inactivity_ms default_config))
        [(600000, System), (600000, Result)]
   \<and> sum_list (map fst [(600000, System), (600000 :: nat, Result)])
       < setTimeout_delay (timeout_ms default_config)
   \<and> \<not> aborted (exec default_config (start default_config sample_request 0)
          [Elapse 600000, Yield System, Elapse 600000, Yield Result])
   \<and> phase (exec default_config (start default_config sample_request 0) [Yield System])
       \<noteq> Finished
   \<and> \<not> clientDisconnected
         (exec default_config (start default_config sample_request 0) [Yield System])
   \<and> setTimeout_delay (inactivity_ms default_config) \<le> 1000000
   \<and> aborted (exec default_config (start default_config sample_request 0)
        ([Yield System] @ [Yield Result, Elapse 1000000]))"
  using C10_timers [of "[Yield System, Elapse 1000000, Yield Result, Elapse 2000000]"
          default_config sample_request_json 0 "Some 0"
          "[(600000, System), (600000, Result)]" 1000000 Result]
        C10_timers [of "[Yield System, Elapse 5]"
          "default_config\<lparr>timeout_ms := Some 2147483648\<rparr>" sample_request_json 0 "Some 0"
          "[]" 1000000 Result]
        C10_timers [of "[Yield System]"
          default_config sample_request 0 "Some 0"
          "[(600000, System), (600000, Result)]" 1000000 Result]
  by (simp add: run_defs nrun_defs elapsed_def timeline_def)

end
